theory Spec2Isabelle
  imports Main
begin

section \<open>Values exchanged between the server and its collaborators\<close>

text \<open>
  The protocol layer of \<^verbatim>\<open>server.go\<close> is embedded as pure functions. A handler takes
  the state of the \<^verbatim>\<open>http.ResponseWriter\<close> on entry and the request, and returns the
  state of the writer on exit together with the calls it made on the auth engine and on
  the backend, in order. A Go run-time panic is a result of its own.
\<close>

datatype num_err = ErrSyntax | ErrRange

text \<open>
  Go \<^verbatim>\<open>error\<close> values. \<open>GemError\<close> is the repository's \<^verbatim>\<open>*Error\<close> (the target of the
  type assertion \<^verbatim>\<open>err.(*Error)\<close>), \<open>NumError\<close> is \<^verbatim>\<open>*strconv.NumError\<close> (function name,
  input, cause), \<open>ErrNoCookie\<close> is \<^verbatim>\<open>http.ErrNoCookie\<close>, and \<open>PlainError\<close> stands for
  \<^verbatim>\<open>errors.New\<close> and every other error value.
\<close>

datatype go_error =
    GemError int string
  | NumError string string num_err
  | ErrNoCookie
  | PlainError string

text \<open>\<^verbatim>\<open>strconv.Quote\<close>, exact for printable ASCII input without quotes and backslashes.\<close>

definition strconv_Quote :: "string \<Rightarrow> string" where
  "strconv_Quote s = [CHR 0x22] @ s @ [CHR 0x22]"

text \<open>
  The method \<^verbatim>\<open>Error()\<close> of an error value.

  Modelled from the spec: the declaration of the type \<^verbatim>\<open>Error\<close> and of its method
  \<^verbatim>\<open>Error()\<close> is not part of the two source files; section 7 of the specification says
  that structured errors surface their message as the raw response body, so the method
  returns the field \<^verbatim>\<open>Message\<close>.
\<close>

fun err_Error :: "go_error \<Rightarrow> string" where
  "err_Error (GemError c m) = m"
| "err_Error (NumError f s ErrSyntax) =
     f @ '': parsing '' @ strconv_Quote s @ '': invalid syntax''"
| "err_Error (NumError f s ErrRange) =
     f @ '': parsing '' @ strconv_Quote s @ '': value out of range''"
| "err_Error ErrNoCookie = ''http: named cookie not present''"
| "err_Error (PlainError m) = m"

text \<open>The run-time panic of an index expression: index and length of the slice.\<close>

datatype panic = IndexOutOfRange nat nat

text \<open>
  \<^verbatim>\<open>Item\<close>: a size and the children by name. The Go map is an association list read with
  \<open>map_of\<close>.
\<close>

datatype item = Item (Size: int) (Children: "(string \<times> item) list")

text \<open>The opaque credential decoded from the body of an authorize request.\<close>

datatype key = Key string

record HttpRange =
  Start :: int
  End :: int

text \<open>
  The part of \<^verbatim>\<open>*http.Request\<close> the handlers read. \<open>Query\<close> is \<^verbatim>\<open>r.URL.Query()\<close>,
  \<open>Header\<close> holds the first value of each header under its canonical name, \<open>Cookies\<close>
  the cookies by name, \<open>ContentLength\<close> is \<^verbatim>\<open>r.ContentLength\<close> (\<open>-1\<close> when unknown) and
  \<open>Body\<close> what reading \<^verbatim>\<open>r.Body\<close> to its end gives.
\<close>

record request =
  Method :: string
  Path :: string
  Host :: string
  Query :: "(string \<times> string) list"
  Header :: "(string \<times> string) list"
  Cookies :: "(string \<times> string) list"
  ContentLength :: int
  Body :: "go_error + string"

text \<open>
  The state of the \<^verbatim>\<open>http.ResponseWriter\<close>: the status code once the header is written,
  the header map and the bytes written so far.
\<close>

record response =
  status :: "int option"
  headers :: "string \<rightharpoonup> string"
  body :: string

text \<open>The calls a handler makes on the auth engine and on the backend.\<close>

datatype call =
    CallCanRead string string
  | CallCanWrite string string
  | CallCompleteAuth string string
  | CallAuthorize key
  | CallList string int
  | CallRead string int int
  | CallWrite string "go_error + string" int int bool bool
  | CallMakeDir string bool
  | CallDelete string bool
  | CallGetImage string int

datatype outcome = Done response "call list" | Panic panic "call list"

record WritableBackend =
  Write :: "string \<Rightarrow> (go_error + string) \<Rightarrow> int \<Rightarrow> int \<Rightarrow> bool \<Rightarrow> bool \<Rightarrow> go_error option"
  MakeDir :: "string \<Rightarrow> bool \<Rightarrow> go_error option"
  Delete :: "string \<Rightarrow> bool \<Rightarrow> go_error option"

record ImageServer =
  GetImage :: "string \<Rightarrow> int \<Rightarrow> go_error + (string \<times> int)"

text \<open>
  The interface \<^verbatim>\<open>Backend\<close>. The type assertions \<^verbatim>\<open>s.backend.(WritableBackend)\<close> and
  \<^verbatim>\<open>s.backend.(ImageServer)\<close> succeed when the optional method sets are present.
\<close>

record Backend =
  List :: "string \<Rightarrow> int \<Rightarrow> go_error + item"
  Read :: "string \<Rightarrow> int \<Rightarrow> int \<Rightarrow> go_error + (item \<times> string)"
  asWritableBackend :: "WritableBackend option"
  asImageServer :: "ImageServer option"

record Auth =
  CanRead :: "string \<Rightarrow> string \<Rightarrow> bool"
  CanWrite :: "string \<Rightarrow> string \<Rightarrow> bool"
  CompleteAuth :: "string \<Rightarrow> string \<Rightarrow> go_error + string"
  Authorize :: "key \<Rightarrow> go_error + string"

record Config =
  DomainMap :: "(string \<times> string) list"

record Server =
  config :: Config
  backend :: Backend
  auth :: Auth
  loginHtml :: string

text \<open>
  Functions of packages outside the repository that the handlers call and that no
  property below depends on: they are parameters. \<open>rice_FindBox\<close> gives the box as the
  function \<^verbatim>\<open>box.Bytes\<close>; \<open>access_token_cookie\<close> is \<^verbatim>\<open>String()\<close> of the cookie that
  \<^verbatim>\<open>authorize\<close> builds around a token.
\<close>

record Lib =
  filepath_Dir :: "string \<Rightarrow> string"
  filepath_Base :: "string \<Rightarrow> string"
  path_Join :: "string \<Rightarrow> string \<Rightarrow> string"
  path_Ext :: "string \<Rightarrow> string"
  mime_TypeByExtension :: "string \<Rightarrow> string"
  json_Marshal :: "item \<Rightarrow> go_error + string"
  json_Unmarshal :: "string \<Rightarrow> go_error + key"
  rice_FindBox :: "string \<Rightarrow> go_error + (string \<Rightarrow> go_error + string)"
  access_token_cookie :: "string \<Rightarrow> string"

section \<open>Library functions the properties depend on\<close>

text \<open>
  \<^verbatim>\<open>strings.Split(s, sep)\<close> for a non-empty separator: the text is cut at each occurrence
  of \<open>sep\<close>, found from left to right without overlap. \<open>cur\<close> is the part being read, in
  reverse. (Every separator in the source is a non-empty literal.)
\<close>

function split_from :: "string \<Rightarrow> string \<Rightarrow> string \<Rightarrow> string list" where
  "split_from sep cur [] = [rev cur]"
| "split_from sep cur (c # cs) =
     (if sep \<noteq> [] \<and> take (length sep) (c # cs) = sep
      then rev cur # split_from sep [] (drop (length sep) (c # cs))
      else split_from sep (c # cur) cs)"
  by pat_completeness auto
termination
proof (relation "measure (\<lambda>(sep, cur, s). length s)")
  show "wf (measure (\<lambda>(sep, cur, s). length s))" by simp
next
  fix sep cur :: string and c :: char and cs :: string
  assume "sep \<noteq> [] \<and> take (length sep) (c # cs) = sep"
  then have "0 < length sep" by simp
  then show "((sep, [], drop (length sep) (c # cs)), (sep, cur, c # cs))
      \<in> measure (\<lambda>(sep, cur, s). length s)"
    by simp
next
  fix sep cur :: string and c :: char and cs :: string
  show "((sep, c # cur, cs), (sep, cur, c # cs)) \<in> measure (\<lambda>(sep, cur, s). length s)"
    by simp
qed

definition strings_Split :: "string \<Rightarrow> string \<Rightarrow> string list" where
  "strings_Split s sep = split_from sep [] s"

definition strings_HasSuffix :: "string \<Rightarrow> string \<Rightarrow> bool" where
  "strings_HasSuffix s suffix =
     (length suffix \<le> length s \<and> drop (length s - length suffix) s = suffix)"

text \<open>\<^verbatim>\<open>url.Values.Get\<close> and \<^verbatim>\<open>http.Header.Get\<close>: the first value, or the empty string.\<close>

definition Get :: "(string \<times> string) list \<Rightarrow> string \<Rightarrow> string" where
  "Get vs k = (case map_of vs k of None \<Rightarrow> [] | Some v \<Rightarrow> v)"

text \<open>\<^verbatim>\<open>r.Cookie(name)\<close>: the value of the named cookie, or \<^verbatim>\<open>http.ErrNoCookie\<close>.\<close>

definition Cookie :: "request \<Rightarrow> string \<Rightarrow> go_error + string" where
  "Cookie r name = (case map_of (Cookies r) name of None \<Rightarrow> Inl ErrNoCookie | Some v \<Rightarrow> Inr v)"

definition is_digit :: "char \<Rightarrow> bool" where
  "is_digit c = (c \<in> set ''0123456789'')"

definition digit_val :: "char \<Rightarrow> nat" where
  "digit_val c = of_char c - 48"

definition maxUint64 :: nat where
  "maxUint64 = 2 ^ 64 - 1"

text \<open>
  The loop of \<^verbatim>\<open>strconv.ParseUint(s, 10, 64)\<close>, from left to right: a character that is
  no decimal digit is a syntax error, a value that leaves the range of \<^verbatim>\<open>uint64\<close> is a
  range error, whichever comes first.
\<close>

fun parse_digits :: "nat \<Rightarrow> string \<Rightarrow> num_err + nat" where
  "parse_digits n [] = Inr n"
| "parse_digits n (c # cs) =
     (if \<not> is_digit c then Inl ErrSyntax
      else if maxUint64 div 10 + 1 \<le> n then Inl ErrRange
      else
        let n1 = 10 * n + digit_val c
        in if maxUint64 < n1 then Inl ErrRange else parse_digits n1 cs)"

definition strconv_ParseUint :: "string \<Rightarrow> num_err + nat" where
  "strconv_ParseUint s = (if s = [] then Inl ErrSyntax else parse_digits 0 s)"

text \<open>
  \<^verbatim>\<open>strconv.ParseInt(s, 10, 64)\<close>, and \<^verbatim>\<open>strconv.Atoi(s)\<close> where \<^verbatim>\<open>int\<close> has 64 bits: an
  optional sign, then one or more decimal digits, the value within the range of
  \<^verbatim>\<open>int64\<close>. \<open>fn\<close> is the function name the error carries.
\<close>

definition parse_int64 :: "string \<Rightarrow> string \<Rightarrow> go_error + int" where
  "parse_int64 fn s =
     (if s = [] then Inl (NumError fn s ErrSyntax)
      else
        let neg = (hd s = CHR ''-'');
            ds = (if hd s = CHR ''+'' \<or> hd s = CHR ''-'' then tl s else s)
        in case strconv_ParseUint ds of
             Inl cause \<Rightarrow> Inl (NumError fn s cause)
           | Inr un \<Rightarrow>
               if \<not> neg \<and> 2 ^ 63 \<le> un then Inl (NumError fn s ErrRange)
               else if neg \<and> 2 ^ 63 < un then Inl (NumError fn s ErrRange)
               else Inr (if neg then - int un else int un))"

definition strconv_ParseInt :: "string \<Rightarrow> go_error + int" where
  "strconv_ParseInt s = parse_int64 ''strconv.ParseInt'' s"

definition strconv_Atoi :: "string \<Rightarrow> go_error + int" where
  "strconv_Atoi s = parse_int64 ''strconv.Atoi'' s"

text \<open>\<^verbatim>\<open>fmt.Sprintf("%d", n)\<close>.\<close>

fun show_nat :: "nat \<Rightarrow> string" where
  "show_nat n =
     (if n < 10 then [''0123456789'' ! n]
      else show_nat (n div 10) @ [''0123456789'' ! (n mod 10)])"

declare show_nat.simps [simp del]

definition fmt_d :: "int \<Rightarrow> string" where
  "fmt_d n = (if n < 0 then CHR ''-'' # show_nat (nat (- n)) else show_nat (nat n))"

text \<open>Arithmetic on \<^verbatim>\<open>int64\<close> wraps around.\<close>

definition wrap64 :: "int \<Rightarrow> int" where
  "wrap64 x = (x + 2 ^ 63) mod 2 ^ 64 - 2 ^ 63"

definition is_int64 :: "int \<Rightarrow> bool" where
  "is_int64 x = (- (2 ^ 63) \<le> x \<and> x < 2 ^ 63)"

definition MAX_INT64 :: int where
  "MAX_INT64 = 9223372036854775807"

section \<open>The response writer\<close>

text \<open>
  \<^verbatim>\<open>w.Header().Set\<close>, \<^verbatim>\<open>w.WriteHeader\<close> and \<^verbatim>\<open>w.Write\<close>. Only the first call of
  \<^verbatim>\<open>WriteHeader\<close> has an effect: it sets the status, and it looks at the header
  \<^verbatim>\<open>Content-Length\<close>: a value that is not empty and that \<^verbatim>\<open>strconv.ParseInt\<close> does not
  read as an integer of at least 0 is logged as invalid and the header is deleted.
  \<^verbatim>\<open>Write\<close> calls \<^verbatim>\<open>WriteHeader\<close> with status 200 first when no status was written.
  \<^verbatim>\<open>io.Copy(w, data)\<close> writes \<open>data\<close>. A handler that returns without having written a
  status leaves \<open>status = None\<close>, and \<^verbatim>\<open>net/http\<close> then sends 200: \<open>wire_status\<close>.
  (\<^verbatim>\<open>WriteHeader\<close> panics on a code below 100 or above 999; the codes of structured
  errors are taken to be HTTP status codes.)
\<close>

definition header_Set :: "string \<Rightarrow> string \<Rightarrow> response \<Rightarrow> response" where
  "header_Set k v w = w\<lparr>headers := (headers w)(k \<mapsto> v)\<rparr>"

definition header_Del :: "string \<Rightarrow> response \<Rightarrow> response" where
  "header_Del k w = w\<lparr>headers := (headers w)(k := None)\<rparr>"

definition WriteHeader :: "int \<Rightarrow> response \<Rightarrow> response" where
  "WriteHeader c w =
     (case status w of
        Some _ \<Rightarrow> w
      | None \<Rightarrow>
          let w1 = w\<lparr>status := Some c\<rparr>;
              cl = (case headers w ''Content-Length'' of None \<Rightarrow> [] | Some v \<Rightarrow> v)
          in if cl \<noteq> [] then
               (case strconv_ParseInt cl of
                  Inr v \<Rightarrow> if 0 \<le> v then w1 else header_Del ''Content-Length'' w1
                | Inl _ \<Rightarrow> header_Del ''Content-Length'' w1)
             else w1)"

definition Write_body :: "string \<Rightarrow> response \<Rightarrow> response" where
  "Write_body b w = (WriteHeader 200 w)\<lparr>body := body w @ b\<rparr>"

definition io_Copy :: "string \<Rightarrow> response \<Rightarrow> response" where
  "io_Copy data w = Write_body data w"

definition wire_status :: "response \<Rightarrow> int" where
  "wire_status w = (case status w of None \<Rightarrow> 200 | Some c \<Rightarrow> c)"

definition new_response :: response where
  "new_response = \<lparr>status = None, headers = Map.empty, body = []\<rparr>"

section \<open>The handlers of \<^verbatim>\<open>server.go\<close>\<close>

definition www_authenticate :: string where
  "www_authenticate =
     ''emauth realm='' @ [CHR 0x22] @ ''Everything'' @ [CHR 0x22] @
     '', charset='' @ [CHR 0x22] @ ''UTF-8'' @ [CHR 0x22]"

definition sendLoginPage :: "Server \<Rightarrow> response \<Rightarrow> response" where
  "sendLoginPage s w =
     Write_body (loginHtml s)
       (WriteHeader 403
         (header_Set ''Content-Type'' ''text/html; charset=utf-8''
           (header_Set ''WWW-Authenticate'' www_authenticate w)))"

text \<open>
  \<^verbatim>\<open>extractToken\<close> returns a token and an error, or panics in the index expression
  \<^verbatim>\<open>strings.Split(authHeader, " ")[1]\<close>.
\<close>

definition extractToken :: "request \<Rightarrow> panic + (string \<times> go_error option)" where
  "extractToken r =
     (let tokenName = ''access_token'';
          queryToken = Get (Query r) tokenName
      in if queryToken \<noteq> [] then Inr (queryToken, None)
         else
           let authHeader = Get (Header r) ''Authorization''
           in if authHeader \<noteq> [] then
                (let parts = strings_Split authHeader '' ''
                 in if 1 < length parts then Inr (parts ! 1, None)
                    else Inl (IndexOutOfRange 1 (length parts)))
              else
                (case Cookie r tokenName of
                   Inr v \<Rightarrow> Inr (v, None)
                 | Inl _ \<Rightarrow> Inr ([], Some (PlainError ''No token found''))))"

text \<open>The two ways a handler reports a failure: a status and a text.\<close>

definition fail_with :: "int \<Rightarrow> string \<Rightarrow> response \<Rightarrow> response" where
  "fail_with c msg w = Write_body msg (WriteHeader c w)"

definition handleHead :: "Lib \<Rightarrow> Server \<Rightarrow> response \<Rightarrow> request \<Rightarrow> string \<Rightarrow> outcome" where
  "handleHead lib s w r reqPath =
     (case extractToken r of
        Inl p \<Rightarrow> Panic p []
      | Inr (token, _) \<Rightarrow>
          if \<not> CanRead (auth s) token reqPath
          then Done (sendLoginPage s w) [CallCanRead token reqPath]
          else
            let parentDir = filepath_Dir lib reqPath @ ''/'';
                tr = [CallCanRead token reqPath, CallList parentDir 1]
            in case List (backend s) parentDir 1 of
                 Inl (GemError c m) \<Rightarrow> Done (fail_with c m w) tr
               | Inl e \<Rightarrow> Done (fail_with 500 (err_Error e) w) tr
               | Inr item \<Rightarrow>
                   (case map_of (Children item) (filepath_Base lib reqPath) of
                      None \<Rightarrow> Done (fail_with 404 ''Not found'' w) tr
                    | Some child \<Rightarrow>
                        Done (header_Set ''Content-Length'' (fmt_d (Size child)) w) tr))"

definition handlePut :: "Lib \<Rightarrow> Server \<Rightarrow> response \<Rightarrow> request \<Rightarrow> string \<Rightarrow> outcome" where
  "handlePut lib s w r reqPath =
     (case extractToken r of
        Inl p \<Rightarrow> Panic p []
      | Inr (token, _) \<Rightarrow>
          if \<not> CanWrite (auth s) token reqPath
          then Done (sendLoginPage s w) [CallCanWrite token reqPath]
          else
            (case asWritableBackend (backend s) of
               None \<Rightarrow>
                 Done (fail_with 500 ''Backend does not support writing'' w)
                   [CallCanWrite token reqPath]
             | Some b \<Rightarrow>
                 if strings_HasSuffix reqPath ''/'' then
                   (let recursive = (Get (Query r) ''recursive'' = ''true'');
                        tr = [CallCanWrite token reqPath, CallMakeDir reqPath recursive]
                    in case MakeDir b reqPath recursive of
                         Some e \<Rightarrow> Done (fail_with 400 (err_Error e) w) tr
                       | None \<Rightarrow> Done w tr)
                 else
                   (let offset = 0;
                        truncate = True;
                        overwrite = (Get (Query r) ''overwrite'' = ''true'')
                    in if ContentLength r < 1
                       then Done (fail_with 400 ''Invalid write size'' w)
                              [CallCanWrite token reqPath]
                       else
                         let tr = [CallCanWrite token reqPath,
                                   CallWrite reqPath (Body r) offset (ContentLength r)
                                     overwrite truncate]
                         in case Write b reqPath (Body r) offset (ContentLength r)
                                   overwrite truncate of
                              Some e \<Rightarrow> Done (fail_with 500 (err_Error e) w) tr
                            | None \<Rightarrow> Done w tr)))"

definition handlePatch :: "Lib \<Rightarrow> Server \<Rightarrow> response \<Rightarrow> request \<Rightarrow> string \<Rightarrow> outcome" where
  "handlePatch lib s w r reqPath =
     (case extractToken r of
        Inl p \<Rightarrow> Panic p []
      | Inr (token, _) \<Rightarrow>
          if \<not> CanWrite (auth s) token reqPath
          then Done (sendLoginPage s w) [CallCanWrite token reqPath]
          else
            (case asWritableBackend (backend s) of
               None \<Rightarrow>
                 Done (fail_with 500 ''Backend does not support writing'' w)
                   [CallCanWrite token reqPath]
             | Some b \<Rightarrow>
                 let overwrite = True;
                     truncate = False;
                     offsetParam = Get (Query r) ''offset''
                 in case (if offsetParam = [] then Inr 0
                          else strconv_Atoi (Get (Query r) ''offset'')) of
                      Inl _ \<Rightarrow>
                        Done (fail_with 400 ''Invalid offset'' w) [CallCanWrite token reqPath]
                    | Inr offset \<Rightarrow>
                        (case strconv_Atoi (Get (Header r) ''Content-Length'') of
                           Inl _ \<Rightarrow>
                             Done (fail_with 400 ''Invalid content length'' w)
                               [CallCanWrite token reqPath]
                         | Inr sz \<Rightarrow>
                             let tr = [CallCanWrite token reqPath,
                                       CallWrite reqPath (Body r) offset sz overwrite truncate]
                             in case Write b reqPath (Body r) offset sz overwrite truncate of
                                  Some e \<Rightarrow> Done (fail_with 500 (err_Error e) w) tr
                                | None \<Rightarrow> Done w tr)))"

definition handleDelete :: "Lib \<Rightarrow> Server \<Rightarrow> response \<Rightarrow> request \<Rightarrow> string \<Rightarrow> outcome" where
  "handleDelete lib s w r reqPath =
     (case extractToken r of
        Inl p \<Rightarrow> Panic p []
      | Inr (token, _) \<Rightarrow>
          if \<not> CanWrite (auth s) token reqPath
          then Done (sendLoginPage s w) [CallCanWrite token reqPath]
          else
            (case asWritableBackend (backend s) of
               None \<Rightarrow>
                 Done (fail_with 500 ''Backend does not support writing'' w)
                   [CallCanWrite token reqPath]
             | Some b \<Rightarrow>
                 let recursive = (Get (Query r) ''recursive'' = ''true'');
                     tr = [CallCanWrite token reqPath, CallDelete reqPath recursive]
                 in case Delete b reqPath recursive of
                      Some e \<Rightarrow> Done (fail_with 500 (err_Error e) w) tr
                    | None \<Rightarrow> Done w tr))"

text \<open>
  \<^verbatim>\<open>http.SetCookie\<close> adds the header when the cookie's text is not empty. No other
  \<^verbatim>\<open>Set-Cookie\<close> header is ever added, so adding is setting.
\<close>

definition authorize :: "Lib \<Rightarrow> Server \<Rightarrow> response \<Rightarrow> request \<Rightarrow> outcome" where
  "authorize lib s w r =
     (let authId = Get (Query r) ''id'';
          code = Get (Query r) ''code''
      in if authId \<noteq> [] \<and> code \<noteq> [] then
           (case CompleteAuth (auth s) authId code of
              Inl e \<Rightarrow> Done (fail_with 400 (err_Error e) w) [CallCompleteAuth authId code]
            | Inr token \<Rightarrow>
                let v = access_token_cookie lib token;
                    w1 = (if v \<noteq> [] then header_Set ''Set-Cookie'' v w else w)
                in Done (Write_body token w1) [CallCompleteAuth authId code])
         else
           (case Body r of
              Inl e \<Rightarrow> Done (fail_with 400 (err_Error e) w) []
            | Inr bodyJson \<Rightarrow>
                (case json_Unmarshal lib bodyJson of
                   Inl e \<Rightarrow> Done (fail_with 400 (err_Error e) w) []
                 | Inr k \<Rightarrow>
                     (case Authorize (auth s) k of
                        Inl e \<Rightarrow> Done (fail_with 400 (err_Error e) w) [CallAuthorize k]
                      | Inr pendingId \<Rightarrow> Done (Write_body pendingId w) [CallAuthorize k]))))"

text \<open>The branch \<^verbatim>\<open>images/<size>/<filename>\<close> of the meta protocol, after the read check.\<close>

definition serveImage ::
  "Lib \<Rightarrow> Server \<Rightarrow> response \<Rightarrow> string \<Rightarrow> string list \<Rightarrow> call list \<Rightarrow> outcome" where
  "serveImage lib s w gemPath gemReqParts tr =
     (case asImageServer (backend s) of
        None \<Rightarrow> Done w tr
      | Some b \<Rightarrow>
          if length gemReqParts < 2 then Panic (IndexOutOfRange 1 (length gemReqParts)) tr
          else
            (case strconv_Atoi (gemReqParts ! 1) of
               Inl e \<Rightarrow> Done (fail_with 400 (err_Error e) w) tr
             | Inr sz \<Rightarrow>
                 if length gemReqParts < 3
                 then Panic (IndexOutOfRange 2 (length gemReqParts)) tr
                 else
                   let filename = gemReqParts ! 2;
                       imagePath = path_Join lib gemPath filename;
                       tr' = tr @ [CallGetImage imagePath sz]
                   in case GetImage b imagePath sz of
                        Inl e \<Rightarrow> Done (fail_with 500 (err_Error e) w) tr'
                      | Inr (img, _) \<Rightarrow> Done (io_Copy img w) tr'))"

definition handleGemDriveRequest ::
  "Lib \<Rightarrow> Server \<Rightarrow> response \<Rightarrow> request \<Rightarrow> string \<Rightarrow> outcome" where
  "handleGemDriveRequest lib s w r reqPath =
     (case extractToken r of
        Inl p \<Rightarrow> Panic p []
      | Inr (token, _) \<Rightarrow>
          let pathParts = strings_Split reqPath ''gemdrive/''
          in if length pathParts < 2 then Panic (IndexOutOfRange 1 (length pathParts)) []
             else
               let gemPath = pathParts ! 0;
                   gemReq = pathParts ! 1
               in if gemReq = ''authorize'' then authorize lib s w r
                  else if \<not> CanRead (auth s) token gemPath
                  then Done (sendLoginPage s w) [CallCanRead token gemPath]
                  else if gemReq = ''meta.json'' then
                    (let depthParam = Get (Query r) ''depth''
                     in case (if depthParam \<noteq> [] then strconv_Atoi depthParam else Inr 1) of
                          Inl _ \<Rightarrow>
                            Done (fail_with 400 ''Invalid depth param'' w)
                              [CallCanRead token gemPath]
                        | Inr depth \<Rightarrow>
                            let tr = [CallCanRead token gemPath, CallList gemPath depth]
                            in case List (backend s) gemPath depth of
                                 Inl (GemError c m) \<Rightarrow> Done (fail_with c m w) tr
                               | Inl e \<Rightarrow> Done (fail_with 500 (err_Error e) w) tr
                               | Inr item \<Rightarrow>
                                   (case json_Marshal lib item of
                                      Inl e \<Rightarrow> Done (fail_with 500 (err_Error e) w) tr
                                    | Inr jsonBody \<Rightarrow> Done (Write_body jsonBody w) tr))
                  else
                    let gemReqParts = strings_Split gemReq ''/''
                    in if gemReqParts ! 0 = ''images''
                       then serveImage lib s w gemPath gemReqParts [CallCanRead token gemPath]
                       else Done w [CallCanRead token gemPath])"

definition serveDir ::
  "Lib \<Rightarrow> Server \<Rightarrow> response \<Rightarrow> request \<Rightarrow> string \<Rightarrow> call list \<Rightarrow> outcome" where
  "serveDir lib s w r reqPath tr =
     (let htmlIndexPath = reqPath @ ''index.html'';
          tr' = tr @ [CallRead htmlIndexPath 0 0]
      in case Read (backend s) htmlIndexPath 0 0 of
           Inl _ \<Rightarrow> Done (fail_with 400 ''Attempted to read directory'' w) tr'
         | Inr (_, data) \<Rightarrow> Done (io_Copy data w) tr')"

text \<open>
  The second half of \<^verbatim>\<open>serveFile\<close>, from the call of \<^verbatim>\<open>Read\<close> on: \<open>rang\<close> is the parsed
  range, \<open>None\<close> for the nil pointer.
\<close>

definition readAndCopy ::
  "Server \<Rightarrow> response \<Rightarrow> string \<Rightarrow> HttpRange option \<Rightarrow> int \<Rightarrow> int \<Rightarrow> call list \<Rightarrow> outcome"
  where
  "readAndCopy s w reqPath rang offset copyLength tr =
     (let tr' = tr @ [CallRead reqPath offset copyLength]
      in case Read (backend s) reqPath offset copyLength of
           Inl (GemError c m) \<Rightarrow> Done (fail_with c m w) tr'
         | Inl e \<Rightarrow> Done (fail_with 500 (err_Error e) w) tr'
         | Inr (item, data) \<Rightarrow>
             (case rang of
                Some rg \<Rightarrow>
                  let end = (if End rg = MAX_INT64 then wrap64 (Size item - 1) else End rg);
                      l = wrap64 (wrap64 (end - Start rg) + 1);
                      w1 = header_Set ''Content-Range''
                             (''bytes '' @ fmt_d (Start rg) @ ''-'' @ fmt_d end @ ''/'' @
                              fmt_d (Size item)) w;
                      w2 = header_Set ''Content-Length'' (fmt_d l) w1
                  in Done (io_Copy data (WriteHeader 206 w2)) tr'
              | None \<Rightarrow>
                  Done (io_Copy data (header_Set ''Content-Length'' (fmt_d (Size item)) w)) tr'))"

definition parseRange :: "string \<Rightarrow> go_error + HttpRange" where
  "parseRange header =
     (let parts = strings_Split header ''=''
      in if length parts \<noteq> 2 then Inl (PlainError ''Invalid Range header'')
         else
           let rangeParts = strings_Split (parts ! 1) ''-''
           in if length rangeParts \<noteq> 2 then Inl (PlainError ''Invalid Range header'')
              else
                (case (if rangeParts ! 0 \<noteq> [] then strconv_ParseInt (rangeParts ! 0)
                       else Inr 0) of
                   Inl e \<Rightarrow> Inl e
                 | Inr start \<Rightarrow>
                     (case (if rangeParts ! 1 \<noteq> [] then strconv_ParseInt (rangeParts ! 1)
                            else Inr MAX_INT64) of
                        Inl e \<Rightarrow> Inl e
                      | Inr end \<Rightarrow> Inr \<lparr>Start = start, End = end\<rparr>)))"

definition serveFile ::
  "Lib \<Rightarrow> Server \<Rightarrow> response \<Rightarrow> request \<Rightarrow> string \<Rightarrow> call list \<Rightarrow> outcome" where
  "serveFile lib s w r reqPath tr =
     (let w1 = header_Set ''Accept-Ranges'' ''bytes'' w;
          download = (Get (Query r) ''download'' = ''true'');
          w2 = (if download then header_Set ''Content-Disposition'' ''attachment'' w1 else w1);
          rangeHeader = Get (Header r) ''Range''
      in if rangeHeader \<noteq> [] then
           (case parseRange rangeHeader of
              Inl e \<Rightarrow> Done (fail_with 500 (err_Error e) w2) tr
            | Inr rang \<Rightarrow>
                let offset = Start rang;
                    copyLength = (if End rang \<noteq> MAX_INT64
                                  then wrap64 (wrap64 (End rang - Start rang) + 1) else 0)
                in readAndCopy s w2 reqPath (Some rang) offset copyLength tr)
         else readAndCopy s w2 reqPath None 0 0 tr)"

definition serveItem :: "Lib \<Rightarrow> Server \<Rightarrow> response \<Rightarrow> request \<Rightarrow> string \<Rightarrow> outcome" where
  "serveItem lib s w r reqPath =
     (case extractToken r of
        Inl p \<Rightarrow> Panic p []
      | Inr (token, _) \<Rightarrow>
          if \<not> CanRead (auth s) token reqPath
          then Done (sendLoginPage s w) [CallCanRead token reqPath]
          else if strings_HasSuffix reqPath ''/''
          then serveDir lib s w r reqPath [CallCanRead token reqPath]
          else serveFile lib s w r reqPath [CallCanRead token reqPath])"

text \<open>
  The function that \<^verbatim>\<open>Run\<close> registers for every path, in four parts: the request path
  after the lookup of the host name in the domain map; the writer with the CORS headers;
  the writer on entry to a handler, with the content type; the dispatch on the marker
  \<^verbatim>\<open>gemdrive/\<close> and on the method. \<^verbatim>\<open>Run\<close> loads the login page into the server first.
\<close>

definition requestPath :: "Server \<Rightarrow> request \<Rightarrow> string" where
  "requestPath s r =
     (let hostname = (if Get (Header r) ''X-Forwarded-Host'' = [] then Host r
                      else Get (Header r) ''X-Forwarded-Host'')
      in case map_of (DomainMap (config s)) hostname of
           Some mapRoot \<Rightarrow> mapRoot @ Path r
         | None \<Rightarrow> Path r)"

definition cors_writer :: response where
  "cors_writer =
     header_Set ''Access-Control-Allow-Headers'' ''*''
       (header_Set ''Access-Control-Allow-Methods'' ''*''
         (header_Set ''Access-Control-Allow-Origin'' ''*'' new_response))"

definition entry_writer :: "Lib \<Rightarrow> string \<Rightarrow> response" where
  "entry_writer lib reqPath =
     (let ext = path_Ext lib reqPath;
          contentType = mime_TypeByExtension lib ext
      in header_Set ''Content-Type'' contentType cors_writer)"

definition route :: "Lib \<Rightarrow> Server \<Rightarrow> response \<Rightarrow> request \<Rightarrow> string \<Rightarrow> outcome" where
  "route lib s w r reqPath =
     (let pathParts = strings_Split reqPath ''gemdrive/''
      in if length pathParts = 2 then handleGemDriveRequest lib s w r reqPath
         else if Method r = ''HEAD'' then handleHead lib s w r reqPath
         else if Method r = ''GET'' then serveItem lib s w r reqPath
         else if Method r = ''PUT'' then handlePut lib s w r reqPath
         else if Method r = ''PATCH'' then handlePatch lib s w r reqPath
         else if Method r = ''DELETE'' then handleDelete lib s w r reqPath
         else Done w [])"

definition Run_handler :: "Lib \<Rightarrow> Server \<Rightarrow> request \<Rightarrow> outcome" where
  "Run_handler lib s0 r =
     (case rice_FindBox lib ''files'' of
        Inl e \<Rightarrow> Done (fail_with 500 (err_Error e) new_response) []
      | Inr box \<Rightarrow>
          (case box ''login.html'' of
             Inl e \<Rightarrow> Done (fail_with 500 (err_Error e) new_response) []
           | Inr html \<Rightarrow>
               if Method r = ''OPTIONS'' then Done cors_writer []
               else
                 let s = s0\<lparr>loginHtml := html\<rparr>;
                     reqPath = requestPath s r
                 in route lib s (entry_writer lib reqPath) r reqPath))"

section \<open>What the client and the collaborators observe\<close>

text \<open>
  The status, body and headers the client receives (\<open>None\<close> after a panic: the connection
  is closed without a response), and the calls made.
\<close>

fun status_of :: "outcome \<Rightarrow> int option" where
  "status_of (Done w tr) = Some (wire_status w)"
| "status_of (Panic p tr) = None"

fun body_of :: "outcome \<Rightarrow> string option" where
  "body_of (Done w tr) = Some (body w)"
| "body_of (Panic p tr) = None"

fun header_of :: "outcome \<Rightarrow> string \<Rightarrow> string option" where
  "header_of (Done w tr) k = headers w k"
| "header_of (Panic p tr) k = None"

fun calls_of :: "outcome \<Rightarrow> call list" where
  "calls_of (Done w tr) = tr"
| "calls_of (Panic p tr) = tr"

fun is_backend_call :: "call \<Rightarrow> bool" where
  "is_backend_call (CallList p d) = True"
| "is_backend_call (CallRead p off len) = True"
| "is_backend_call (CallWrite p src off len ov tr) = True"
| "is_backend_call (CallMakeDir p rec) = True"
| "is_backend_call (CallDelete p rec) = True"
| "is_backend_call (CallGetImage p sz) = True"
| "is_backend_call c = False"

section \<open>A small installation to evaluate the handlers on\<close>

text \<open>
  One mounted directory \<^verbatim>\<open>/docs/\<close> with the 100-byte file \<^verbatim>\<open>a.txt\<close>; the token
  \<^verbatim>\<open>secret\<close> may read and write everything, no other token may do anything. Deleting
  without \<^verbatim>\<open>recursive\<close> fails with the structured error 400, as for a directory that is
  not empty.
\<close>

definition demo_content :: string where
  "demo_content =
     ''0123456789abcdefghijABCDEFGHIJ0123456789abcdefghij'' @
     ''ABCDEFGHIJ0123456789abcdefghijABCDEFGHIJ0123456789''"

definition demo_lib :: Lib where
  "demo_lib =
     \<lparr>filepath_Dir = (\<lambda>p. rev (tl (dropWhile (\<lambda>c. c \<noteq> CHR ''/'') (rev p)))),
      filepath_Base = (\<lambda>p. rev (takeWhile (\<lambda>c. c \<noteq> CHR ''/'') (rev p))),
      path_Join = (\<lambda>a b. a @ b),
      path_Ext = (\<lambda>p. if CHR ''.'' \<in> set p
                        then CHR ''.'' # rev (takeWhile (\<lambda>c. c \<noteq> CHR ''.'') (rev p)) else []),
      mime_TypeByExtension = (\<lambda>e. if e = ''.txt'' then ''text/plain; charset=utf-8'' else []),
      json_Marshal = (\<lambda>i. Inr ''{}''),
      json_Unmarshal = (\<lambda>b. Inr (Key b)),
      rice_FindBox = (\<lambda>n. Inr (\<lambda>f. Inr ''<html>login</html>'')),
      access_token_cookie = (\<lambda>t. ''access_token='' @ t)\<rparr>"

definition demo_auth :: Auth where
  "demo_auth =
     \<lparr>CanRead = (\<lambda>token p. token = ''secret''),
      CanWrite = (\<lambda>token p. token = ''secret''),
      CompleteAuth = (\<lambda>i c. Inl (GemError 404 ''Not found'')),
      Authorize = (\<lambda>k. Inr ''pending-1'')\<rparr>"

definition demo_writable :: WritableBackend where
  "demo_writable =
     \<lparr>Write = (\<lambda>p src off len ov tr. None),
      MakeDir = (\<lambda>p rec. None),
      Delete = (\<lambda>p rec. if rec then None else Some (GemError 400 ''directory not empty''))\<rparr>"

definition demo_backend :: Backend where
  "demo_backend =
     \<lparr>List = (\<lambda>p d. if p = ''/docs/'' then Inr (Item 0 [(''a.txt'', Item 100 [])])
                     else Inl (GemError 404 ''Not found'')),
      Read = (\<lambda>p off len.
                if p = ''/docs/a.txt''
                then Inr (Item 100 [],
                          if len = 0 then drop (nat off) demo_content
                          else take (nat len) (drop (nat off) demo_content))
                else Inl (GemError 404 ''Not found'')),
      asWritableBackend = Some demo_writable,
      asImageServer = None\<rparr>"

definition demo_server :: Server where
  "demo_server =
     \<lparr>config = \<lparr>DomainMap = []\<rparr>, backend = demo_backend, auth = demo_auth, loginHtml = []\<rparr>"

definition demo_request :: request where
  "demo_request =
     \<lparr>Method = ''GET'', Path = ''/docs/a.txt'', Host = ''localhost'', Query = [],
      Header = [], Cookies = [], ContentLength = 0, Body = Inr []\<rparr>"

text \<open>Requests on the small installation, one for each property below.\<close>

definition request_no_space :: request where
  "request_no_space = demo_request\<lparr>Header := [(''Authorization'', ''Bearer'')]\<rparr>"

definition request_unknown_op :: request where
  "request_unknown_op =
     demo_request\<lparr>Path := ''/docs/gemdrive/thumbnails'', Query := [(''access_token'', ''secret'')]\<rparr>"

definition request_image :: request where
  "request_image =
     demo_request\<lparr>Path := ''/docs/gemdrive/images/128/a.png'',
                    Query := [(''access_token'', ''secret'')]\<rparr>"

definition request_delete :: request where
  "request_delete =
     demo_request\<lparr>Method := ''DELETE'', Path := ''/docs/'',
                    Query := [(''access_token'', ''secret'')]\<rparr>"

definition request_mkdir :: request where
  "request_mkdir =
     demo_request\<lparr>Method := ''PUT'', Path := ''/docs/new/sub/'',
                    Query := [(''access_token'', ''secret''), (''recursive'', ''true'')]\<rparr>"

definition request_put :: request where
  "request_put =
     demo_request\<lparr>Method := ''PUT'', Path := ''/docs/b.txt'',
                    Query := [(''access_token'', ''secret''), (''overwrite'', ''true'')],
                    ContentLength := 5, Body := Inr ''hello''\<rparr>"

definition request_put_empty :: request where
  "request_put_empty =
     demo_request\<lparr>Method := ''PUT'', Path := ''/docs/b.txt'',
                    Query := [(''access_token'', ''secret'')]\<rparr>"

definition request_depth_negative :: request where
  "request_depth_negative =
     demo_request\<lparr>Path := ''/docs/gemdrive/meta.json'',
                    Query := [(''access_token'', ''secret''), (''depth'', ''-1'')]\<rparr>"

definition request_depth_absent :: request where
  "request_depth_absent =
     demo_request\<lparr>Path := ''/docs/gemdrive/meta.json'',
                    Query := [(''access_token'', ''secret'')]\<rparr>"

definition request_depth_word :: request where
  "request_depth_word =
     demo_request\<lparr>Path := ''/docs/gemdrive/meta.json'',
                    Query := [(''access_token'', ''secret''), (''depth'', ''deep'')]\<rparr>"

definition request_depth_two :: request where
  "request_depth_two =
     demo_request\<lparr>Path := ''/docs/gemdrive/meta.json'',
                    Query := [(''access_token'', ''secret''), (''depth'', ''2'')]\<rparr>"

definition request_patch_negative :: request where
  "request_patch_negative =
     demo_request\<lparr>Method := ''PATCH'',
                    Query := [(''access_token'', ''secret''), (''offset'', ''-5'')],
                    Header := [(''Content-Length'', ''3'')], ContentLength := 3,
                    Body := Inr ''xyz''\<rparr>"

definition request_patch :: request where
  "request_patch =
     demo_request\<lparr>Method := ''PATCH'', Query := [(''access_token'', ''secret'')],
                    Header := [(''Content-Length'', ''3'')], ContentLength := 3,
                    Body := Inr ''xyz''\<rparr>"

definition request_patch_bad_offset :: request where
  "request_patch_bad_offset =
     demo_request\<lparr>Method := ''PATCH'',
                    Query := [(''access_token'', ''secret''), (''offset'', ''1.5'')],
                    Header := [(''Content-Length'', ''3'')], ContentLength := 3,
                    Body := Inr ''xyz''\<rparr>"

definition request_patch_no_length :: request where
  "request_patch_no_length =
     demo_request\<lparr>Method := ''PATCH'',
                    Query := [(''access_token'', ''secret''), (''offset'', ''40'')],
                    ContentLength := - 1, Body := Inr ''xyz''\<rparr>"

text \<open>Requests for the file \<^verbatim>\<open>/docs/a.txt\<close> with and without a range.\<close>

definition request_range :: request where
  "request_range =
     demo_request\<lparr>Query := [(''access_token'', ''secret'')],
                    Header := [(''Range'', ''bytes=10-19'')]\<rparr>"

definition request_open_range :: request where
  "request_open_range =
     demo_request\<lparr>Query := [(''access_token'', ''secret'')],
                    Header := [(''Range'', ''bytes=90-'')]\<rparr>"

definition request_whole :: request where
  "request_whole = demo_request\<lparr>Query := [(''access_token'', ''secret'')]\<rparr>"

definition request_range_beyond :: request where
  "request_range_beyond =
     demo_request\<lparr>Query := [(''access_token'', ''secret'')],
                    Header := [(''Range'', ''bytes=200-'')]\<rparr>"

definition request_range_reversed :: request where
  "request_range_reversed =
     demo_request\<lparr>Query := [(''access_token'', ''secret'')],
                    Header := [(''Range'', ''bytes=50-10'')]\<rparr>"

definition request_bad_bound :: request where
  "request_bad_bound =
     demo_request\<lparr>Query := [(''access_token'', ''secret'')],
                    Header := [(''Range'', ''bytes=a-19'')]\<rparr>"

definition request_two_ranges :: request where
  "request_two_ranges =
     demo_request\<lparr>Query := [(''access_token'', ''secret'')],
                    Header := [(''Range'', ''bytes=0-4-9'')]\<rparr>"

text \<open>
  The specification's wording for the token of the \<^verbatim>\<open>Authorization\<close> header, "the second
  whitespace-delimited field": the fields of a text are its maximal runs of characters
  that are not white space. This definition follows the specification, not the source; it
  is only compared with \<^verbatim>\<open>extractToken\<close>.
\<close>

definition is_space :: "char \<Rightarrow> bool" where
  "is_space c = (c \<in> set [CHR '' '', CHR 0x09, CHR 0x0A, CHR 0x0B, CHR 0x0C, CHR 0x0D])"

fun spec_fields_from :: "string \<Rightarrow> string \<Rightarrow> string list" where
  "spec_fields_from cur [] = (if cur = [] then [] else [rev cur])"
| "spec_fields_from cur (c # cs) =
     (if is_space c
      then (if cur = [] then spec_fields_from [] cs else rev cur # spec_fields_from [] cs)
      else spec_fields_from (c # cur) cs)"

definition spec_whitespace_fields :: "string \<Rightarrow> string list" where
  "spec_whitespace_fields s = spec_fields_from [] s"

text \<open>Requests that present a token in different places.\<close>

definition request_two_spaces :: request where
  "request_two_spaces = demo_request\<lparr>Header := [(''Authorization'', ''Bearer  secret'')]\<rparr>"

definition request_bearer :: request where
  "request_bearer =
     demo_request\<lparr>Header := [(''Authorization'', ''Bearer secret'')],
                    Cookies := [(''access_token'', ''stale'')]\<rparr>"

definition request_query_token :: request where
  "request_query_token =
     demo_request\<lparr>Query := [(''access_token'', ''secret'')],
                    Header := [(''Authorization'', ''Bearer other'')]\<rparr>"

definition request_cookie :: request where
  "request_cookie = demo_request\<lparr>Cookies := [(''access_token'', ''secret'')]\<rparr>"

section \<open>Facts about the library functions and the writer\<close>

lemma split_from_no_sep:
  "c \<notin> set s \<Longrightarrow> split_from [c] cur s = [rev cur @ s]"
  by (induction s arbitrary: cur) auto

lemma split_from_at_sep:
  "c \<notin> set a \<Longrightarrow> split_from [c] cur (a @ c # rest) = (rev cur @ a) # split_from [c] [] rest"
  by (induction a arbitrary: cur) auto

lemma strings_Split_no_sep:
  "c \<notin> set s \<Longrightarrow> strings_Split s [c] = [s]"
  by (simp add: strings_Split_def split_from_no_sep)

lemma strings_Split_at_sep:
  "c \<notin> set a \<Longrightarrow> strings_Split (a @ c # rest) [c] = a # strings_Split rest [c]"
  by (simp add: strings_Split_def split_from_at_sep)

lemma split_from_char_Cons:
  "split_from [c] cur (x # xs) =
     (if x = c then rev cur # split_from [c] [] xs else split_from [c] (x # cur) xs)"
  by simp

lemma split_from_length: "length (split_from [c] cur s) = Suc (count_list s c)"
proof (induction s arbitrary: cur)
  case Nil
  show ?case by simp
next
  case (Cons x xs)
  show ?case
    by (simp only: split_from_char_Cons Cons.IH count_list.simps list.size split: if_split) simp
qed

lemma count_list_one_split:
  "count_list s c = Suc 0 \<Longrightarrow> \<exists>a b. s = a @ c # b \<and> c \<notin> set a \<and> c \<notin> set b"
proof (induction s)
  case Nil
  then show ?case by simp
next
  case (Cons x xs)
  show ?case
  proof (cases "x = c")
    case True
    with Cons.prems have "count_list xs c = 0" by simp
    then have "c \<notin> set xs" by (simp add: count_list_0_iff)
    with True show ?thesis
      by (intro exI [of _ "[]"] exI [of _ xs]) simp
  next
    case False
    with Cons.prems have "count_list xs c = Suc 0" by simp
    from Cons.IH [OF this] obtain a b where ab: "xs = a @ c # b" "c \<notin> set a" "c \<notin> set b"
      by (elim exE conjE)
    with False show ?thesis
      by (intro exI [of _ "x # a"] exI [of _ b]) simp
  qed
qed

lemma strings_Split_pair:
  "c \<notin> set a \<Longrightarrow> c \<notin> set b \<Longrightarrow> strings_Split (a @ c # b) [c] = [a, b]"
  by (simp add: strings_Split_at_sep strings_Split_no_sep)

lemma strings_Split_two:
  assumes "length (strings_Split s [c]) = 2"
  shows "\<exists>a b. s = a @ c # b \<and> c \<notin> set a \<and> c \<notin> set b \<and> strings_Split s [c] = [a, b]"
proof -
  from assms have "count_list s c = Suc 0"
    by (simp add: strings_Split_def split_from_length)
  from count_list_one_split [OF this]
  obtain a b where ab: "s = a @ c # b" "c \<notin> set a" "c \<notin> set b"
    by (elim exE conjE)
  show ?thesis
    using ab strings_Split_pair [OF ab(2,3)]
    by (intro exI [of _ a] exI [of _ b]) simp
qed

lemma takeWhile_not_in: "c \<notin> set b \<Longrightarrow> takeWhile (\<lambda>x. x \<noteq> c) b = b"
  by (induction b) auto

lemma dropWhile_not_in: "c \<notin> set b \<Longrightarrow> dropWhile (\<lambda>x. x \<noteq> c) b = []"
  by (induction b) auto

lemma strings_Split_second:
  assumes "c \<in> set s"
  shows "1 < length (strings_Split s [c])"
    and "strings_Split s [c] ! 1 =
           takeWhile (\<lambda>x. x \<noteq> c) (tl (dropWhile (\<lambda>x. x \<noteq> c) s))"
proof -
  from assms obtain a b where s: "s = a @ c # b" and a: "c \<notin> set a"
    using split_list_first [of c s] by blast
  have d: "dropWhile (\<lambda>x. x \<noteq> c) s = c # b"
    using a by (simp add: s dropWhile_append dropWhile_not_in)
  have sp: "strings_Split s [c] = a # strings_Split b [c]"
    by (simp add: s strings_Split_at_sep [OF a])
  have hd_b: "strings_Split b [c] =
      takeWhile (\<lambda>x. x \<noteq> c) b # tl (strings_Split b [c])"
  proof (cases "c \<in> set b")
    case False
    then show ?thesis by (simp add: strings_Split_no_sep takeWhile_not_in)
  next
    case True
    then obtain b1 b2 where b: "b = b1 @ c # b2" and b1: "c \<notin> set b1"
      using split_list_first [of c b] by blast
    then show ?thesis
      by (simp add: strings_Split_at_sep takeWhile_append takeWhile_not_in)
  qed
  show "1 < length (strings_Split s [c])"
    by (subst sp, subst hd_b) simp
  show "strings_Split s [c] ! 1 = takeWhile (\<lambda>x. x \<noteq> c) (tl (dropWhile (\<lambda>x. x \<noteq> c) s))"
    by (subst sp, subst hd_b) (simp add: d)
qed

lemma parse_int64_range: "parse_int64 fn s = Inr v \<Longrightarrow> is_int64 v"
  by (auto simp: parse_int64_def is_int64_def Let_def split: if_splits sum.splits)

lemma parse_int64_unsigned:
  "CHR ''-'' \<notin> set s \<Longrightarrow> parse_int64 fn s = Inr v \<Longrightarrow> 0 \<le> v"
  by (cases s) (auto simp: parse_int64_def Let_def split: if_splits sum.splits)

lemma wrap64_id: "is_int64 x \<Longrightarrow> wrap64 x = x"
  by (simp add: wrap64_def is_int64_def)

lemma MAX_INT64_is_int64: "is_int64 MAX_INT64" "0 \<le> MAX_INT64"
  by (simp_all add: is_int64_def MAX_INT64_def)

lemma span_no_overflow:
  assumes "0 \<le> a" "is_int64 a" "- 1 \<le> e" "e < 2 ^ 63 - 1"
  shows "wrap64 (wrap64 (e - a) + 1) = e - a + 1"
proof -
  have "is_int64 (e - a)" "is_int64 (e - a + 1)"
    using assms by (simp_all add: is_int64_def)
  then show ?thesis by (simp add: wrap64_id)
qed

lemma show_nat_small: "n < 10 \<Longrightarrow> show_nat n = [''0123456789'' ! n]"
  by (simp add: show_nat.simps)

lemma show_nat_100: "show_nat 100 = ''100''" "show_nat 10 = ''10''" "show_nat 19 = ''19''"
  "show_nat 90 = ''90''" "show_nat 99 = ''99''" "show_nat 200 = ''200''" "show_nat 50 = ''50''"
  by code_simp+

lemma status_WriteHeader:
  "status (WriteHeader c w) = (case status w of None \<Rightarrow> Some c | Some x \<Rightarrow> Some x)"
  by (simp add: WriteHeader_def header_Del_def Let_def split: option.split sum.split)

lemma body_WriteHeader: "body (WriteHeader c w) = body w"
  by (simp add: WriteHeader_def header_Del_def Let_def split: option.split sum.split)

lemma headers_WriteHeader_other:
  "k \<noteq> ''Content-Length'' \<Longrightarrow> headers (WriteHeader c w) k = headers w k"
  by (simp add: WriteHeader_def header_Del_def Let_def split: option.split sum.split)

lemma headers_WriteHeader_written:
  "status w = Some x \<Longrightarrow> headers (WriteHeader c w) k = headers w k"
  by (simp add: WriteHeader_def)

lemmas writer_defs =
  header_Set_def Write_body_def io_Copy_def fail_with_def wire_status_def sendLoginPage_def
  status_WriteHeader body_WriteHeader headers_WriteHeader_other

lemma entry_writer_fresh:
  "status (entry_writer lib p) = None" "body (entry_writer lib p) = []"
  by (simp_all add: entry_writer_def cors_writer_def new_response_def header_Set_def Let_def)

lemma sendLoginPage_fresh:
  assumes "status w = None" and "body w = []"
  shows "status (sendLoginPage s w) = Some 403"
    and "body (sendLoginPage s w) = loginHtml s"
    and "headers (sendLoginPage s w) ''WWW-Authenticate'' = Some www_authenticate"
    and "wire_status (sendLoginPage s w) = 403"
  using assms by (simp_all add: writer_defs)

lemma serveFile_writer:
  assumes "status w = None" and "body w = []"
  shows "status (if d then header_Set ''Content-Disposition'' ''attachment''
                       (header_Set ''Accept-Ranges'' ''bytes'' w)
                 else header_Set ''Accept-Ranges'' ''bytes'' w) = None"
    and "body (if d then header_Set ''Content-Disposition'' ''attachment''
                       (header_Set ''Accept-Ranges'' ''bytes'' w)
               else header_Set ''Accept-Ranges'' ''bytes'' w) = []"
  using assms by (simp_all add: header_Set_def)

lemma Run_handler_route:
  assumes "rice_FindBox lib ''files'' = Inr box" and "box ''login.html'' = Inr html"
      and "Method r \<noteq> ''OPTIONS''"
  shows "Run_handler lib s r =
           route lib (s\<lparr>loginHtml := html\<rparr>) (entry_writer lib (requestPath s r)) r
             (requestPath s r)"
  using assms by (simp add: Run_handler_def Let_def requestPath_def)

lemma Run_handler_GET_file:
  assumes box: "rice_FindBox lib ''files'' = Inr box" "box ''login.html'' = Inr html"
    and meth: "Method r = ''GET''"
    and direct: "length (strings_Split (requestPath s r) ''gemdrive/'') \<noteq> 2"
    and tok: "extractToken r = Inr (token, e)"
    and allowed: "CanRead (auth s) token (requestPath s r)"
    and plain: "\<not> strings_HasSuffix (requestPath s r) ''/''"
  shows "Run_handler lib s r =
           serveFile lib (s\<lparr>loginHtml := html\<rparr>) (entry_writer lib (requestPath s r)) r
             (requestPath s r) [CallCanRead token (requestPath s r)]"
proof -
  have notopt: "Method r \<noteq> ''OPTIONS''" using meth by simp
  show ?thesis
    using Run_handler_route [OF box notopt] direct meth tok allowed plain
    by (simp add: route_def serveItem_def)
qed

lemma digit_char:
  assumes "n < 10"
  shows "is_digit (''0123456789'' ! n)" and "digit_val (''0123456789'' ! n) = n"
proof -
  have cases: "n = 0 \<or> n = 1 \<or> n = 2 \<or> n = 3 \<or> n = 4 \<or> n = 5 \<or> n = 6 \<or> n = 7 \<or> n = 8 \<or> n = 9"
    using assms by arith
  from cases show "is_digit (''0123456789'' ! n)"
    by (elim disjE) (simp_all add: is_digit_def)
  from cases show "digit_val (''0123456789'' ! n) = n"
    by (elim disjE) (simp_all add: digit_val_def)
qed

lemma parse_digits_append:
  "parse_digits n (xs @ ys) =
     (case parse_digits n xs of Inl err \<Rightarrow> Inl err | Inr m \<Rightarrow> parse_digits m ys)"
  by (induction xs arbitrary: n) (simp_all add: Let_def)

lemma parse_digits_one:
  assumes "d < 10" and "10 * m + d \<le> maxUint64"
  shows "parse_digits m [''0123456789'' ! d] = Inr (10 * m + d)"
proof -
  have "m < maxUint64 div 10 + 1" using assms by linarith
  then show ?thesis using assms by (simp add: digit_char Let_def)
qed

lemma parse_digits_show_nat:
  "n \<le> maxUint64 \<Longrightarrow> parse_digits 0 (show_nat n) = Inr n"
proof (induction n rule: show_nat.induct)
  case (1 n)
  show ?case
  proof (cases "n < 10")
    case True
    then have "show_nat n = [''0123456789'' ! n]" by (simp add: show_nat.simps)
    moreover have "parse_digits 0 [''0123456789'' ! n] = Inr (10 * 0 + n)"
      using True "1.prems" by (intro parse_digits_one) simp_all
    ultimately show ?thesis by simp
  next
    case False
    then have sn: "show_nat n = show_nat (n div 10) @ [''0123456789'' ! (n mod 10)]"
      by (subst show_nat.simps) simp
    have le: "n div 10 \<le> maxUint64" using "1.prems" by linarith
    have ih: "parse_digits 0 (show_nat (n div 10)) = Inr (n div 10)"
      using "1.IH" [OF False le] .
    have "parse_digits (n div 10) [''0123456789'' ! (n mod 10)] =
        Inr (10 * (n div 10) + n mod 10)"
      using "1.prems" by (intro parse_digits_one) simp_all
    then show ?thesis by (simp add: sn parse_digits_append ih)
  qed
qed

lemma show_nat_digits: "show_nat n \<noteq> [] \<and> list_all is_digit (show_nat n)"
proof (induction n rule: show_nat.induct)
  case (1 n)
  show ?case
  proof (cases "n < 10")
    case True
    then show ?thesis by (simp add: show_nat.simps digit_char)
  next
    case False
    then have sn: "show_nat n = show_nat (n div 10) @ [''0123456789'' ! (n mod 10)]"
      by (subst show_nat.simps) simp
    show ?thesis using "1.IH" [OF False] by (simp add: sn digit_char)
  qed
qed

lemma show_nat_hd: "hd (show_nat n) \<noteq> CHR ''-''" "hd (show_nat n) \<noteq> CHR ''+''"
proof -
  obtain c cs where s: "show_nat n = c # cs" using show_nat_digits [of n] by (cases "show_nat n") auto
  then have "is_digit c" using show_nat_digits [of n] by simp
  then show "hd (show_nat n) \<noteq> CHR ''-''" "hd (show_nat n) \<noteq> CHR ''+''"
    by (auto simp: s is_digit_def)
qed

lemma strconv_ParseInt_fmt_d:
  assumes "is_int64 v"
  shows "strconv_ParseInt (fmt_d v) = Inr v"
proof (cases "v < 0")
  case False
  then have f: "fmt_d v = show_nat (nat v)" by (simp add: fmt_d_def)
  have le: "nat v \<le> maxUint64" using assms False by (simp add: is_int64_def maxUint64_def)
  have lt: "\<not> 2 ^ 63 \<le> nat v" using assms False by (simp add: is_int64_def)
  show ?thesis
    using False show_nat_digits [of "nat v"] show_nat_hd [of "nat v"] lt
    by (simp add: strconv_ParseInt_def parse_int64_def strconv_ParseUint_def f
        parse_digits_show_nat [OF le] Let_def)
next
  case True
  then have f: "fmt_d v = CHR ''-'' # show_nat (nat (- v))" by (simp add: fmt_d_def)
  have le: "nat (- v) \<le> maxUint64" using assms True by (simp add: is_int64_def maxUint64_def)
  have lt: "\<not> 2 ^ 63 < nat (- v)" using assms True by (simp add: is_int64_def)
  show ?thesis
    using True show_nat_digits [of "nat (- v)"] lt
    by (simp add: strconv_ParseInt_def parse_int64_def strconv_ParseUint_def f
        parse_digits_show_nat [OF le] Let_def)
qed

lemma fmt_d_nonempty: "fmt_d v \<noteq> []"
  using show_nat_digits by (simp add: fmt_d_def)


lemma headers_WriteHeader_Content_Length:
  assumes "status w = None" and "headers w ''Content-Length'' = Some (fmt_d l)"
    and "is_int64 l"
  shows "headers (WriteHeader c w) ''Content-Length'' =
           (if 0 \<le> l then Some (fmt_d l) else None)"
  using assms
  by (simp add: WriteHeader_def header_Del_def Let_def strconv_ParseInt_fmt_d fmt_d_nonempty)

lemma ranged_writer:
  assumes "status w = None" and "body w = []" and "is_int64 l"
  shows "wire_status (io_Copy data (WriteHeader 206
           (header_Set ''Content-Length'' (fmt_d l) (header_Set ''Content-Range'' cr w)))) = 206"
    and "headers (io_Copy data (WriteHeader 206
           (header_Set ''Content-Length'' (fmt_d l) (header_Set ''Content-Range'' cr w))))
           ''Content-Range'' = Some cr"
    and "headers (io_Copy data (WriteHeader 206
           (header_Set ''Content-Length'' (fmt_d l) (header_Set ''Content-Range'' cr w))))
           ''Content-Length'' = (if 0 \<le> l then Some (fmt_d l) else None)"
    and "body (io_Copy data (WriteHeader 206
           (header_Set ''Content-Length'' (fmt_d l) (header_Set ''Content-Range'' cr w)))) = data"
proof -
  let ?y = "header_Set ''Content-Length'' (fmt_d l) (header_Set ''Content-Range'' cr w)"
  have y: "status ?y = None" "headers ?y ''Content-Length'' = Some (fmt_d l)"
    "headers ?y ''Content-Range'' = Some cr" "body ?y = []"
    using assms by (simp_all add: header_Set_def)
  have written: "status (WriteHeader 206 ?y) = Some 206"
    by (simp add: status_WriteHeader y)
  show "wire_status (io_Copy data (WriteHeader 206 ?y)) = 206"
    by (simp add: io_Copy_def Write_body_def wire_status_def status_WriteHeader y)
  show "headers (io_Copy data (WriteHeader 206 ?y)) ''Content-Range'' = Some cr"
    by (simp add: io_Copy_def Write_body_def headers_WriteHeader_other y)
  show "headers (io_Copy data (WriteHeader 206 ?y)) ''Content-Length'' =
      (if 0 \<le> l then Some (fmt_d l) else None)"
    using headers_WriteHeader_written [OF written, of 200 "''Content-Length''"]
      headers_WriteHeader_Content_Length [OF y(1,2) assms(3), of 206]
    by (simp add: io_Copy_def Write_body_def)
  show "body (io_Copy data (WriteHeader 206 ?y)) = data"
    by (simp add: io_Copy_def Write_body_def body_WriteHeader y)
qed

lemma whole_writer:
  assumes "status w = None" and "body w = []" and "0 \<le> n" and "is_int64 n"
  shows "wire_status (io_Copy data (header_Set ''Content-Length'' (fmt_d n) w)) = 200"
    and "headers (io_Copy data (header_Set ''Content-Length'' (fmt_d n) w)) ''Content-Length'' =
           Some (fmt_d n)"
    and "body (io_Copy data (header_Set ''Content-Length'' (fmt_d n) w)) = data"
proof -
  let ?y = "header_Set ''Content-Length'' (fmt_d n) w"
  have y: "status ?y = None" "headers ?y ''Content-Length'' = Some (fmt_d n)" "body ?y = []"
    using assms by (simp_all add: header_Set_def)
  show "wire_status (io_Copy data ?y) = 200"
    by (simp add: io_Copy_def Write_body_def wire_status_def status_WriteHeader y)
  show "headers (io_Copy data ?y) ''Content-Length'' = Some (fmt_d n)"
    using headers_WriteHeader_Content_Length [OF y(1,2) assms(4), of 200] assms(3)
    by (simp add: io_Copy_def Write_body_def)
  show "body (io_Copy data ?y) = data"
    by (simp add: io_Copy_def Write_body_def body_WriteHeader y)
qed

section \<open>The grammar of \<^verbatim>\<open>parseRange\<close>\<close>

lemma parseRange_accepts:
  assumes "CHR ''='' \<notin> set u" "CHR ''='' \<notin> set a" "CHR ''='' \<notin> set b"
    and "CHR ''-'' \<notin> set a" "CHR ''-'' \<notin> set b"
  shows "parseRange (u @ ''='' @ a @ ''-'' @ b) =
           (case (if a \<noteq> [] then strconv_ParseInt a else Inr 0) of
              Inl e \<Rightarrow> Inl e
            | Inr start \<Rightarrow>
                (case (if b \<noteq> [] then strconv_ParseInt b else Inr MAX_INT64) of
                   Inl e \<Rightarrow> Inl e
                 | Inr end \<Rightarrow> Inr \<lparr>Start = start, End = end\<rparr>))"
proof -
  have s1: "strings_Split (u @ CHR ''='' # a @ CHR ''-'' # b) [CHR ''=''] = [u, a @ CHR ''-'' # b]"
    using strings_Split_pair [of "CHR ''=''" u "a @ CHR ''-'' # b"] assms by simp
  have s2: "strings_Split (a @ CHR ''-'' # b) [CHR ''-''] = [a, b]"
    using strings_Split_pair [of "CHR ''-''" a b] assms by simp
  show ?thesis by (simp add: parseRange_def s1 s2 Let_def split: sum.split)
qed

lemma parseRange_Inr:
  assumes ok: "parseRange h = Inr rg"
  shows "\<exists>u a b. h = u @ ''='' @ a @ ''-'' @ b \<and>
           CHR ''='' \<notin> set u \<and> CHR ''='' \<notin> set a \<and> CHR ''='' \<notin> set b \<and>
           CHR ''-'' \<notin> set a \<and> CHR ''-'' \<notin> set b \<and>
           (if a = [] then Start rg = 0 else strconv_ParseInt a = Inr (Start rg)) \<and>
           (if b = [] then End rg = MAX_INT64 else strconv_ParseInt b = Inr (End rg))"
proof -
  have len1: "length (strings_Split h ''='') = 2"
  proof (rule ccontr)
    assume "length (strings_Split h ''='') \<noteq> 2"
    then have "parseRange h = Inl (PlainError ''Invalid Range header'')"
      by (simp add: parseRange_def Let_def)
    with ok show False by simp
  qed
  from strings_Split_two [OF len1]
  obtain u v where uv: "h = u @ CHR ''='' # v" "CHR ''='' \<notin> set u" "CHR ''='' \<notin> set v"
    "strings_Split h ''='' = [u, v]"
    by (elim exE conjE)
  have len2: "length (strings_Split v ''-'') = 2"
  proof (rule ccontr)
    assume "length (strings_Split v ''-'') \<noteq> 2"
    then have "parseRange h = Inl (PlainError ''Invalid Range header'')"
      by (simp add: parseRange_def Let_def uv(4))
    with ok show False by simp
  qed
  from strings_Split_two [OF len2]
  obtain a b where ab: "v = a @ CHR ''-'' # b" "CHR ''-'' \<notin> set a" "CHR ''-'' \<notin> set b"
    by (elim exE conjE)
  have eq: "CHR ''='' \<notin> set a" "CHR ''='' \<notin> set b"
    using uv(3) ab(1) by simp_all
  have h: "h = u @ ''='' @ a @ ''-'' @ b" using uv(1) ab(1) by simp
  have "parseRange (u @ ''='' @ a @ ''-'' @ b) = Inr rg" using ok h by simp
  then have bounds:
    "(if a = [] then Start rg = 0 else strconv_ParseInt a = Inr (Start rg)) \<and>
     (if b = [] then End rg = MAX_INT64 else strconv_ParseInt b = Inr (End rg))"
    unfolding parseRange_accepts [OF uv(2) eq ab(2,3)]
    by (cases "a = []"; cases "b = []") (auto split: sum.splits)
  show ?thesis
    using h uv(2) eq ab(2,3) bounds
    by (intro exI [of _ u] exI [of _ a] exI [of _ b]) simp
qed

lemma parseRange_bounds:
  assumes "parseRange h = Inr rg"
  shows "0 \<le> Start rg \<and> is_int64 (Start rg) \<and> 0 \<le> End rg \<and> is_int64 (End rg)"
proof -
  from parseRange_Inr [OF assms]
  obtain u a b where ab: "CHR ''-'' \<notin> set a" "CHR ''-'' \<notin> set b"
    and st: "if a = [] then Start rg = 0 else strconv_ParseInt a = Inr (Start rg)"
    and en: "if b = [] then End rg = MAX_INT64 else strconv_ParseInt b = Inr (End rg)"
    by (elim exE conjE)
  have "0 \<le> Start rg \<and> is_int64 (Start rg)"
  proof (cases "a = []")
    case True
    with st show ?thesis by (simp add: is_int64_def)
  next
    case False
    with st have "parse_int64 ''strconv.ParseInt'' a = Inr (Start rg)"
      by (simp add: strconv_ParseInt_def)
    then show ?thesis using parse_int64_unsigned [OF ab(1)] parse_int64_range by blast
  qed
  moreover have "0 \<le> End rg \<and> is_int64 (End rg)"
  proof (cases "b = []")
    case True
    with en show ?thesis by (simp add: MAX_INT64_is_int64)
  next
    case False
    with en have "parse_int64 ''strconv.ParseInt'' b = Inr (End rg)"
      by (simp add: strconv_ParseInt_def)
    then show ?thesis using parse_int64_unsigned [OF ab(2)] parse_int64_range by blast
  qed
  ultimately show ?thesis by simp
qed

section \<open>The calls a handler makes\<close>

lemma calls_readAndCopy:
  "calls_of (readAndCopy s w p rang off len tr) = tr @ [CallRead p off len]"
proof (cases "Read (backend s) p off len")
  case (Inl err)
  then show ?thesis by (cases err) (simp_all add: readAndCopy_def Let_def)
next
  case (Inr res)
  then show ?thesis
    by (cases res; cases rang) (simp_all add: readAndCopy_def Let_def)
qed

lemma calls_serveFile:
  "take (length tr) (calls_of (serveFile lib s w r p tr)) = tr"
proof (cases "Get (Header r) ''Range'' = []")
  case True
  then show ?thesis by (simp add: serveFile_def Let_def calls_readAndCopy)
next
  case False
  then show ?thesis
    by (cases "parseRange (Get (Header r) ''Range'')")
       (simp_all add: serveFile_def Let_def calls_readAndCopy)
qed

lemma calls_serveDir:
  "calls_of (serveDir lib s w r p tr) = tr @ [CallRead (p @ ''index.html'') 0 0]"
proof (cases "Read (backend s) (p @ ''index.html'') 0 0")
  case (Inl err)
  then show ?thesis by (simp add: serveDir_def Let_def)
next
  case (Inr res)
  then show ?thesis by (cases res) (simp add: serveDir_def Let_def)
qed

lemma calls_serveImage:
  "take (length tr) (calls_of (serveImage lib s w gemPath parts tr)) = tr"
proof (cases "asImageServer (backend s)")
  case None
  then show ?thesis by (simp add: serveImage_def)
next
  case (Some b)
  show ?thesis
  proof (cases "length parts < 2")
    case True
    with Some show ?thesis by (simp add: serveImage_def)
  next
    case long: False
    show ?thesis
    proof (cases "strconv_Atoi (parts ! 1)")
      case (Inl err)
      with Some long show ?thesis by (simp add: serveImage_def)
    next
      case (Inr sz)
      show ?thesis
      proof (cases "length parts < 3")
        case True
        with Some long Inr show ?thesis by (simp add: serveImage_def)
      next
        case False
        with Some long Inr show ?thesis
          by (cases "GetImage b (path_Join lib gemPath (parts ! 2)) sz")
             (auto simp: serveImage_def Let_def)
      qed
    qed
  qed
qed

lemma calls_meta_json:
  "take 1 (calls_of
     (case d of
        Inl _ \<Rightarrow> Done (fail_with 400 ''Invalid depth param'' w) [c]
      | Inr depth \<Rightarrow>
          let tr = [c, CallList gemPath depth]
          in case List (backend s) gemPath depth of
               Inl (GemError code m) \<Rightarrow> Done (fail_with code m w) tr
             | Inl e \<Rightarrow> Done (fail_with 500 (err_Error e) w) tr
             | Inr item \<Rightarrow>
                 (case json_Marshal lib item of
                    Inl e \<Rightarrow> Done (fail_with 500 (err_Error e) w) tr
                  | Inr jsonBody \<Rightarrow> Done (Write_body jsonBody w) tr))) = [c]"
proof (cases d)
  case (Inl err)
  then show ?thesis by simp
next
  case (Inr depth)
  show ?thesis
  proof (cases "List (backend s) gemPath depth")
    case (Inl err)
    with Inr show ?thesis by (cases err) (simp_all add: Let_def)
  next
    case list: (Inr item)
    with Inr show ?thesis by (cases "json_Marshal lib item") (simp_all add: Let_def)
  qed
qed

lemma first_call_handleHead:
  "extractToken r = Inr (token, e) \<Longrightarrow>
   take 1 (calls_of (handleHead lib s w r p)) = [CallCanRead token p]"
  by (simp add: handleHead_def Let_def split: sum.split go_error.split option.split)

lemma first_call_serveItem:
  "extractToken r = Inr (token, e) \<Longrightarrow>
   take 1 (calls_of (serveItem lib s w r p)) = [CallCanRead token p]"
  using calls_serveFile [of "[CallCanRead token p]" lib s w r p]
  by (simp add: serveItem_def calls_serveDir)

lemma first_call_handlePut:
  "extractToken r = Inr (token, e) \<Longrightarrow>
   take 1 (calls_of (handlePut lib s w r p)) = [CallCanWrite token p]"
  by (simp add: handlePut_def Let_def split: option.split)

lemma first_call_handlePatch:
  "extractToken r = Inr (token, e) \<Longrightarrow>
   take 1 (calls_of (handlePatch lib s w r p)) = [CallCanWrite token p]"
  by (simp add: handlePatch_def Let_def split: option.split sum.split)

lemma first_call_handleDelete:
  "extractToken r = Inr (token, e) \<Longrightarrow>
   take 1 (calls_of (handleDelete lib s w r p)) = [CallCanWrite token p]"
  by (simp add: handleDelete_def Let_def split: option.split)

lemma first_call_handleGemDriveRequest:
  assumes tok: "extractToken r = Inr (token, e)"
    and marker: "strings_Split p ''gemdrive/'' = [gemPath, gemReq]"
    and op: "gemReq \<noteq> ''authorize''"
  shows "take 1 (calls_of (handleGemDriveRequest lib s w r p)) = [CallCanRead token gemPath]"
proof (cases "CanRead (auth s) token gemPath")
  case False
  with tok marker op show ?thesis by (simp add: handleGemDriveRequest_def Let_def)
next
  case True
  show ?thesis
  proof (cases "gemReq = ''meta.json''")
    case meta: True
    have "handleGemDriveRequest lib s w r p =
        (case (if Get (Query r) ''depth'' \<noteq> [] then strconv_Atoi (Get (Query r) ''depth'')
               else Inr 1) of
           Inl _ \<Rightarrow> Done (fail_with 400 ''Invalid depth param'' w) [CallCanRead token gemPath]
         | Inr depth \<Rightarrow>
             let tr = [CallCanRead token gemPath, CallList gemPath depth]
             in case List (backend s) gemPath depth of
                  Inl (GemError code m) \<Rightarrow> Done (fail_with code m w) tr
                | Inl e \<Rightarrow> Done (fail_with 500 (err_Error e) w) tr
                | Inr item \<Rightarrow>
                    (case json_Marshal lib item of
                       Inl e \<Rightarrow> Done (fail_with 500 (err_Error e) w) tr
                     | Inr jsonBody \<Rightarrow> Done (Write_body jsonBody w) tr))"
      using tok marker True meta by (simp add: handleGemDriveRequest_def Let_def)
    then show ?thesis by (simp only: calls_meta_json)
  next
    case False
    with tok marker op True show ?thesis
      using calls_serveImage [of "[CallCanRead token gemPath]" lib s w gemPath
          "strings_Split gemReq ''/''"]
      by (simp add: handleGemDriveRequest_def Let_def)
  qed
qed

section \<open>Evaluation on the small installation\<close>

text \<open>The definitions to unfold when a handler is evaluated on the small installation.\<close>

lemmas demo_defs =
  demo_lib_def demo_server_def demo_backend_def demo_writable_def demo_auth_def
  demo_request_def demo_content_def

lemmas handler_defs =
  Run_handler_def route_def requestPath_def entry_writer_def cors_writer_def new_response_def
  handleHead_def handlePut_def handlePatch_def handleDelete_def handleGemDriveRequest_def
  serveItem_def serveDir_def serveFile_def readAndCopy_def serveImage_def authorize_def
  extractToken_def Get_def Cookie_def strings_Split_def strings_HasSuffix_def

lemmas parse_defs =
  strconv_Atoi_def strconv_ParseInt_def parse_int64_def strconv_ParseUint_def is_digit_def
  digit_val_def maxUint64_def

lemma demo_direct: "length (strings_Split ''/docs/a.txt'' ''gemdrive/'') \<noteq> 2"
  by (simp add: strings_Split_def)

text \<open>Facts about the small installation that several evaluations share.\<close>

lemma demo_box:
  "rice_FindBox demo_lib ''files'' = Inr (\<lambda>f. Inr ''<html>login</html>'')"
  "(\<lambda>f. Inr ''<html>login</html>'' :: go_error + string) ''login.html'' =
     Inr ''<html>login</html>''"
  by (simp_all add: demo_lib_def)

lemma demo_writable_backend: "asWritableBackend (backend demo_server) = Some demo_writable"
  by (simp add: demo_server_def demo_backend_def)

lemma demo_secret:
  "CanRead (auth demo_server) ''secret'' p" "CanWrite (auth demo_server) ''secret'' p"
  by (simp_all add: demo_server_def demo_auth_def)

lemma demo_parseRange:
  "parseRange ''bytes=10-19'' = Inr \<lparr>Start = 10, End = 19\<rparr>"
  "parseRange ''bytes=90-'' = Inr \<lparr>Start = 90, End = MAX_INT64\<rparr>"
  "parseRange ''bytes=a-19'' = Inl (NumError ''strconv.ParseInt'' ''a'' ErrSyntax)"
  "parseRange ''bytes=0-4-9'' = Inl (PlainError ''Invalid Range header'')"
  "parseRange ''bytes=200-'' = Inr \<lparr>Start = 200, End = MAX_INT64\<rparr>"
  "parseRange ''bytes=50-10'' = Inr \<lparr>Start = 50, End = 10\<rparr>"
  by (simp_all add: parseRange_def strings_Split_def parse_defs Let_def)

lemma demo_fmt_d:
  "fmt_d 100 = ''100''" "fmt_d 10 = ''10''" "fmt_d 19 = ''19''" "fmt_d 90 = ''90''"
  "fmt_d 99 = ''99''" "fmt_d 200 = ''200''" "fmt_d 50 = ''50''"
  by (simp_all add: fmt_d_def show_nat_100)

section \<open>Requests in direct mode that fail the capability check\<close>

text \<open>
  Claim C1. A request in direct mode (the path has no marker \<^verbatim>\<open>gemdrive/\<close> in it, or more
  than one) whose capability check fails, \<^verbatim>\<open>CanRead\<close> for HEAD and GET, \<^verbatim>\<open>CanWrite\<close> for
  PUT, PATCH and DELETE, is answered with status 403, the login page as body and the header
  \<^verbatim>\<open>WWW-Authenticate\<close>; the capability check is the only call the handler makes, so no
  operation of the backend is invoked. (The check is reached when the login page could be
  loaded and \<^verbatim>\<open>extractToken\<close> returned.)
\<close>

theorem unauthorized_direct_request:
  assumes box: "rice_FindBox lib ''files'' = Inr box" "box ''login.html'' = Inr html"
    and direct: "length (strings_Split (requestPath s r) ''gemdrive/'') \<noteq> 2"
    and tok: "extractToken r = Inr (token, e)"
    and denied:
      "(Method r \<in> {''HEAD'', ''GET''} \<and> \<not> CanRead (auth s) token (requestPath s r)) \<or>
       (Method r \<in> {''PUT'', ''PATCH'', ''DELETE''} \<and>
        \<not> CanWrite (auth s) token (requestPath s r))"
  shows "status_of (Run_handler lib s r) = Some 403 \<and>
         body_of (Run_handler lib s r) = Some html \<and>
         header_of (Run_handler lib s r) ''WWW-Authenticate'' = Some www_authenticate \<and>
         calls_of (Run_handler lib s r) =
           [if Method r \<in> {''HEAD'', ''GET''} then CallCanRead token (requestPath s r)
            else CallCanWrite token (requestPath s r)] \<and>
         \<not> list_ex is_backend_call (calls_of (Run_handler lib s r))"
proof -
  let ?s = "s\<lparr>loginHtml := html\<rparr>"
  let ?w = "entry_writer lib (requestPath s r)"
  let ?p = "requestPath s r"
  have notopt: "Method r \<noteq> ''OPTIONS''" using denied by auto
  have run: "Run_handler lib s r = route lib ?s ?w r ?p"
    by (rule Run_handler_route [OF box notopt])
  have page: "wire_status (sendLoginPage ?s ?w) = 403" "body (sendLoginPage ?s ?w) = html"
     "headers (sendLoginPage ?s ?w) ''WWW-Authenticate'' = Some www_authenticate"
    using sendLoginPage_fresh [of ?w ?s] by (simp_all add: entry_writer_fresh)
  from denied show ?thesis
  proof
    assume rd: "Method r \<in> {''HEAD'', ''GET''} \<and> \<not> CanRead (auth s) token ?p"
    then have "route lib ?s ?w r ?p = Done (sendLoginPage ?s ?w) [CallCanRead token ?p]"
      using direct tok by (auto simp: route_def handleHead_def serveItem_def)
    with run rd page show ?thesis by simp
  next
    assume wr: "Method r \<in> {''PUT'', ''PATCH'', ''DELETE''} \<and> \<not> CanWrite (auth s) token ?p"
    then have "route lib ?s ?w r ?p = Done (sendLoginPage ?s ?w) [CallCanWrite token ?p]"
      using direct tok by (auto simp: route_def handlePut_def handlePatch_def handleDelete_def)
    with run wr page show ?thesis by auto
  qed
qed

text \<open>An anonymous GET of \<^verbatim>\<open>/docs/a.txt\<close> on the small installation.\<close>

theorem unauthorized_direct_request_witness:
  "status_of (Run_handler demo_lib demo_server demo_request) = Some 403 \<and>
   body_of (Run_handler demo_lib demo_server demo_request) = Some ''<html>login</html>'' \<and>
   calls_of (Run_handler demo_lib demo_server demo_request) = [CallCanRead [] ''/docs/a.txt'']"
proof -
  have p: "requestPath demo_server demo_request = ''/docs/a.txt''"
    by (simp add: requestPath_def demo_server_def demo_request_def Get_def)
  have box: "rice_FindBox demo_lib ''files'' = Inr (\<lambda>f. Inr ''<html>login</html>'')"
    "(\<lambda>f. Inr ''<html>login</html>'' :: go_error + string) ''login.html'' = Inr ''<html>login</html>''"
    by (simp_all add: demo_lib_def)
  have direct: "length (strings_Split (requestPath demo_server demo_request) ''gemdrive/'') \<noteq> 2"
    by (simp add: p strings_Split_def)
  have tok: "extractToken demo_request = Inr ([], Some (PlainError ''No token found''))"
    by (simp add: extractToken_def demo_request_def Get_def Cookie_def)
  have denied: "(Method demo_request \<in> {''HEAD'', ''GET''} \<and>
      \<not> CanRead (auth demo_server) [] (requestPath demo_server demo_request)) \<or>
     (Method demo_request \<in> {''PUT'', ''PATCH'', ''DELETE''} \<and>
      \<not> CanWrite (auth demo_server) [] (requestPath demo_server demo_request))"
    by (simp add: demo_request_def demo_server_def demo_auth_def)
  show ?thesis
    using unauthorized_direct_request [OF box direct tok denied] p
    by (simp add: demo_request_def)
qed

section \<open>Structured errors of the writing operations\<close>

text \<open>
  Claim C2 says that a structured error of any backend operation reaches the client with
  its own code and message, and that DELETE without \<^verbatim>\<open>recursive\<close> on a directory that is
  not empty, where the backend reports a 400 error, gives a 400 response. \<^verbatim>\<open>handleDelete\<close>
  does not look for a structured error as \<^verbatim>\<open>handleHead\<close>, \<^verbatim>\<open>serveFile\<close> and the
  \<^verbatim>\<open>meta.json\<close> branch do: on the small installation, whose backend answers such a
  DELETE with the structured error 400, the client receives status 500.
\<close>

theorem delete_structured_error_gives_500:
  "Delete demo_writable ''/docs/'' False = Some (GemError 400 ''directory not empty'') \<and>
   calls_of (Run_handler demo_lib demo_server request_delete) =
     [CallCanWrite ''secret'' ''/docs/'', CallDelete ''/docs/'' False] \<and>
   status_of (Run_handler demo_lib demo_server request_delete) = Some 500"
  by (simp add: handler_defs demo_defs request_delete_def writer_defs Let_def)

section \<open>GET of a file\<close>

lemma readAndCopy_range:
  assumes "status w = None" and "body w = []"
    and "Read (backend s) p off len = Inr (item, data)"
  shows "readAndCopy s w p (Some rg) off len tr =
           Done (io_Copy data (WriteHeader 206
             (header_Set ''Content-Length''
               (fmt_d (wrap64 (wrap64
                  ((if End rg = MAX_INT64 then wrap64 (Size item - 1) else End rg) - Start rg) + 1)))
               (header_Set ''Content-Range''
                 (''bytes '' @ fmt_d (Start rg) @ ''-'' @
                  fmt_d (if End rg = MAX_INT64 then wrap64 (Size item - 1) else End rg) @
                  ''/'' @ fmt_d (Size item)) w))))
             (tr @ [CallRead p off len])"
  using assms by (simp add: readAndCopy_def Let_def)

lemma readAndCopy_whole:
  assumes "Read (backend s) p off len = Inr (item, data)"
  shows "readAndCopy s w p None off len tr =
           Done (io_Copy data (header_Set ''Content-Length'' (fmt_d (Size item)) w))
             (tr @ [CallRead p off len])"
  using assms by (simp add: readAndCopy_def Let_def)

lemma ranged_response:
  assumes box: "rice_FindBox lib ''files'' = Inr box" "box ''login.html'' = Inr html"
    and meth: "Method r = ''GET''"
    and direct: "length (strings_Split (requestPath s r) ''gemdrive/'') \<noteq> 2"
    and tok: "extractToken r = Inr (token, e)"
    and allowed: "CanRead (auth s) token (requestPath s r)"
    and plain: "\<not> strings_HasSuffix (requestPath s r) ''/''"
    and hne: "Get (Header r) ''Range'' \<noteq> []"
    and pr: "parseRange (Get (Header r) ''Range'') = Inr rg"
    and rd: "Read (backend s) (requestPath s r) (Start rg)
               (if End rg \<noteq> MAX_INT64 then End rg - Start rg + 1 else 0) = Inr (item, data)"
    and sz: "0 \<le> Size item" "is_int64 (Size item)"
  shows "status_of (Run_handler lib s r) = Some 206 \<and>
         header_of (Run_handler lib s r) ''Content-Range'' =
           Some (''bytes '' @ fmt_d (Start rg) @ ''-'' @
                 fmt_d (if End rg = MAX_INT64 then Size item - 1 else End rg) @
                 ''/'' @ fmt_d (Size item)) \<and>
         header_of (Run_handler lib s r) ''Content-Length'' =
           (if Start rg \<le> (if End rg = MAX_INT64 then Size item - 1 else End rg) + 1
            then Some (fmt_d ((if End rg = MAX_INT64 then Size item - 1 else End rg)
                              - Start rg + 1))
            else None) \<and>
         body_of (Run_handler lib s r) = Some data \<and>
         calls_of (Run_handler lib s r) =
           [CallCanRead token (requestPath s r),
            CallRead (requestPath s r) (Start rg)
              (if End rg \<noteq> MAX_INT64 then End rg - Start rg + 1 else 0)]"
proof -
  let ?s = "s\<lparr>loginHtml := html\<rparr>"
  let ?w = "entry_writer lib (requestPath s r)"
  let ?p = "requestPath s r"
  let ?w2 = "if Get (Query r) ''download'' = ''true''
             then header_Set ''Content-Disposition'' ''attachment''
                    (header_Set ''Accept-Ranges'' ''bytes'' ?w)
             else header_Set ''Accept-Ranges'' ''bytes'' ?w"
  let ?e = "if End rg = MAX_INT64 then Size item - 1 else End rg"
  let ?len = "if End rg \<noteq> MAX_INT64 then End rg - Start rg + 1 else 0"
  have run: "Run_handler lib s r = serveFile lib ?s ?w r ?p [CallCanRead token ?p]"
    by (rule Run_handler_GET_file [OF box meth direct tok allowed plain])
  have w2: "status ?w2 = None" "body ?w2 = []"
    by (rule serveFile_writer [OF entry_writer_fresh])+
  from parseRange_bounds [OF pr]
  have b: "0 \<le> Start rg" "is_int64 (Start rg)" "0 \<le> End rg" "is_int64 (End rg)"
    by simp_all
  have cl: "End rg \<noteq> MAX_INT64 \<Longrightarrow>
      wrap64 (wrap64 (End rg - Start rg) + 1) = End rg - Start rg + 1"
    using b by (intro span_no_overflow) (simp_all add: is_int64_def MAX_INT64_def)
  have e1: "wrap64 (Size item - 1) = Size item - 1"
    using sz by (intro wrap64_id) (simp add: is_int64_def)
  have e: "(if End rg = MAX_INT64 then wrap64 (Size item - 1) else End rg) = ?e"
    using e1 by simp
  have l: "wrap64 (wrap64 (?e - Start rg) + 1) = ?e - Start rg + 1"
    using b sz by (intro span_no_overflow) (simp_all add: is_int64_def MAX_INT64_def)
  have l64: "is_int64 (?e - Start rg + 1)"
    using b sz by (simp add: is_int64_def MAX_INT64_def)
  have len: "(if End rg \<noteq> MAX_INT64 then wrap64 (wrap64 (End rg - Start rg) + 1) else 0) = ?len"
    using cl by simp
  have rd': "Read (backend ?s) ?p (Start rg) ?len = Inr (item, data)"
    using rd by simp
  have sf: "serveFile lib ?s ?w r ?p [CallCanRead token ?p] =
      readAndCopy ?s ?w2 ?p (Some rg) (Start rg) ?len [CallCanRead token ?p]"
    using hne pr by (simp add: serveFile_def Let_def len)
  have pos: "(0 \<le> ?e - Start rg + 1) = (Start rg \<le> ?e + 1)" by linarith
  show ?thesis
    unfolding run sf readAndCopy_range [OF w2 rd'] e l
    using ranged_writer [OF w2 l64, of data
        "''bytes '' @ fmt_d (Start rg) @ ''-'' @ fmt_d ?e @ ''/'' @ fmt_d (Size item)"]
    by (simp only: status_of.simps header_of.simps body_of.simps calls_of.simps pos append.simps)
qed


lemma whole_response:
  assumes box: "rice_FindBox lib ''files'' = Inr box" "box ''login.html'' = Inr html"
    and meth: "Method r = ''GET''"
    and direct: "length (strings_Split (requestPath s r) ''gemdrive/'') \<noteq> 2"
    and tok: "extractToken r = Inr (token, e)"
    and allowed: "CanRead (auth s) token (requestPath s r)"
    and plain: "\<not> strings_HasSuffix (requestPath s r) ''/''"
    and none: "Get (Header r) ''Range'' = []"
    and rd: "Read (backend s) (requestPath s r) 0 0 = Inr (item, data)"
    and sz: "0 \<le> Size item" "is_int64 (Size item)"
  shows "status_of (Run_handler lib s r) = Some 200 \<and>
         header_of (Run_handler lib s r) ''Content-Length'' = Some (fmt_d (Size item)) \<and>
         body_of (Run_handler lib s r) = Some data \<and>
         calls_of (Run_handler lib s r) =
           [CallCanRead token (requestPath s r), CallRead (requestPath s r) 0 0]"
proof -
  let ?s = "s\<lparr>loginHtml := html\<rparr>"
  let ?w = "entry_writer lib (requestPath s r)"
  let ?p = "requestPath s r"
  let ?w2 = "if Get (Query r) ''download'' = ''true''
             then header_Set ''Content-Disposition'' ''attachment''
                    (header_Set ''Accept-Ranges'' ''bytes'' ?w)
             else header_Set ''Accept-Ranges'' ''bytes'' ?w"
  have run: "Run_handler lib s r = serveFile lib ?s ?w r ?p [CallCanRead token ?p]"
    by (rule Run_handler_GET_file [OF box meth direct tok allowed plain])
  have w2: "status ?w2 = None" "body ?w2 = []"
    by (rule serveFile_writer [OF entry_writer_fresh])+
  have rd': "Read (backend ?s) ?p 0 0 = Inr (item, data)" using rd by simp
  have sf: "serveFile lib ?s ?w r ?p [CallCanRead token ?p] =
      readAndCopy ?s ?w2 ?p None 0 0 [CallCanRead token ?p]"
    using none by (simp add: serveFile_def Let_def)
  show ?thesis
    unfolding run sf readAndCopy_whole [OF rd']
    using whole_writer [OF w2 sz, of data]
    by (simp only: status_of.simps header_of.simps body_of.simps calls_of.simps append.simps)
qed

text \<open>
  Claim C3 says that every GET of a file with a well-formed \<^verbatim>\<open>Range\<close> header is answered
  with \<^verbatim>\<open>Content-Length\<close> equal to \<^verbatim>\<open>end - start + 1\<close>. For \<^verbatim>\<open>Range: bytes=200-\<close> on the
  100-byte file the header is parsed, \<^verbatim>\<open>Read\<close> at offset 200 succeeds with no bytes, and
  \<^verbatim>\<open>serveFile\<close> sets \<^verbatim>\<open>Content-Length\<close> to \<open>-100\<close>; \<^verbatim>\<open>WriteHeader\<close> deletes that
  value, so the response has status 206 and \<^verbatim>\<open>Content-Range: bytes 200-99/100\<close> but no
  \<^verbatim>\<open>Content-Length\<close>.
\<close>

theorem range_beyond_end_no_Content_Length:
  "Get (Header request_range_beyond) ''Range'' = ''bytes=200-'' \<and>
   parseRange ''bytes=200-'' = Inr \<lparr>Start = 200, End = MAX_INT64\<rparr> \<and>
   Read (backend demo_server) ''/docs/a.txt'' 200 0 = Inr (Item 100 [], []) \<and>
   status_of (Run_handler demo_lib demo_server request_range_beyond) = Some 206 \<and>
   header_of (Run_handler demo_lib demo_server request_range_beyond) ''Content-Range'' =
     Some ''bytes 200-99/100'' \<and>
   header_of (Run_handler demo_lib demo_server request_range_beyond) ''Content-Length'' = None"
proof -
  have m: "Method request_range_beyond = ''GET''"
    by (simp add: request_range_beyond_def demo_request_def)
  have p: "requestPath demo_server request_range_beyond = ''/docs/a.txt''"
    by (simp add: requestPath_def demo_server_def demo_request_def Get_def
        request_range_beyond_def)
  have d: "length (strings_Split (requestPath demo_server request_range_beyond) ''gemdrive/'')
      \<noteq> 2"
    by (simp add: p demo_direct)
  have t: "extractToken request_range_beyond = Inr (''secret'', None)"
    by (simp add: extractToken_def Get_def request_range_beyond_def demo_request_def)
  have f: "\<not> strings_HasSuffix (requestPath demo_server request_range_beyond) ''/''"
    by (simp add: p strings_HasSuffix_def)
  have h: "Get (Header request_range_beyond) ''Range'' = ''bytes=200-''"
    by (simp add: Get_def request_range_beyond_def demo_request_def)
  have hne: "Get (Header request_range_beyond) ''Range'' \<noteq> []" by (simp add: h)
  have pr: "parseRange (Get (Header request_range_beyond) ''Range'') =
      Inr \<lparr>Start = 200, End = MAX_INT64\<rparr>"
    by (simp add: h demo_parseRange)
  have rd0: "Read (backend demo_server) ''/docs/a.txt'' 200 0 = Inr (Item 100 [], [])"
    by (simp add: demo_server_def demo_backend_def demo_content_def)
  have rd: "Read (backend demo_server) (requestPath demo_server request_range_beyond)
      (Start \<lparr>Start = 200, End = MAX_INT64\<rparr>)
      (if End \<lparr>Start = 200, End = MAX_INT64\<rparr> \<noteq> MAX_INT64
       then End \<lparr>Start = 200, End = MAX_INT64\<rparr> - Start \<lparr>Start = 200, End = MAX_INT64\<rparr> + 1
       else 0) = Inr (Item 100 [], [])"
    by (simp add: p rd0)
  have sz: "0 \<le> Size (Item 100 [])" "is_int64 (Size (Item 100 []))"
    by (simp_all add: is_int64_def)
  show ?thesis
    using ranged_response [OF demo_box m d t demo_secret(1) f hne pr rd sz]
    by (simp add: h demo_parseRange rd0 demo_fmt_d)
qed

text \<open>
  Claim C3, amended. For an authorized GET of a file in direct mode whose \<^verbatim>\<open>Range\<close> header
  \<^verbatim>\<open>parseRange\<close> accepts and whose \<^verbatim>\<open>Read\<close> succeeds with an Item of a size that is not
  negative: the status is 206 and \<^verbatim>\<open>Content-Range\<close> is \<^verbatim>\<open>bytes <start>-<end>/<total>\<close>,
  where an open end (the value \<^verbatim>\<open>MAX_INT64\<close>) is resolved to the size minus one;
  \<^verbatim>\<open>Content-Length\<close> is \<^verbatim>\<open>end - start + 1\<close> when that is not negative, and the header is
  absent when it is negative (the start lies more than one byte after the end). The 64-bit
  arithmetic does not wrap, since both bounds of a parsed range lie between 0 and
  \<^verbatim>\<open>MAX_INT64\<close>. Without a \<^verbatim>\<open>Range\<close> header the status is 200 and \<^verbatim>\<open>Content-Length\<close> is the
  size of the Item.
\<close>

theorem get_file_response:
  assumes box: "rice_FindBox lib ''files'' = Inr box" "box ''login.html'' = Inr html"
    and meth: "Method r = ''GET''"
    and direct: "length (strings_Split (requestPath s r) ''gemdrive/'') \<noteq> 2"
    and tok: "extractToken r = Inr (token, e)"
    and allowed: "CanRead (auth s) token (requestPath s r)"
    and plain: "\<not> strings_HasSuffix (requestPath s r) ''/''"
  shows "(\<forall>rg item data.
            Get (Header r) ''Range'' \<noteq> [] \<and>
            parseRange (Get (Header r) ''Range'') = Inr rg \<and>
            Read (backend s) (requestPath s r) (Start rg)
              (if End rg \<noteq> MAX_INT64 then End rg - Start rg + 1 else 0) = Inr (item, data) \<and>
            0 \<le> Size item \<and> is_int64 (Size item) \<longrightarrow>
            status_of (Run_handler lib s r) = Some 206 \<and>
            header_of (Run_handler lib s r) ''Content-Range'' =
              Some (''bytes '' @ fmt_d (Start rg) @ ''-'' @
                    fmt_d (if End rg = MAX_INT64 then Size item - 1 else End rg) @
                    ''/'' @ fmt_d (Size item)) \<and>
            header_of (Run_handler lib s r) ''Content-Length'' =
              (if Start rg \<le> (if End rg = MAX_INT64 then Size item - 1 else End rg) + 1
               then Some (fmt_d ((if End rg = MAX_INT64 then Size item - 1 else End rg)
                                 - Start rg + 1))
               else None) \<and>
            body_of (Run_handler lib s r) = Some data \<and>
            calls_of (Run_handler lib s r) =
              [CallCanRead token (requestPath s r),
               CallRead (requestPath s r) (Start rg)
                 (if End rg \<noteq> MAX_INT64 then End rg - Start rg + 1 else 0)]) \<and>
         (\<forall>item data.
            Get (Header r) ''Range'' = [] \<and>
            Read (backend s) (requestPath s r) 0 0 = Inr (item, data) \<and>
            0 \<le> Size item \<and> is_int64 (Size item) \<longrightarrow>
            status_of (Run_handler lib s r) = Some 200 \<and>
            header_of (Run_handler lib s r) ''Content-Length'' = Some (fmt_d (Size item)) \<and>
            body_of (Run_handler lib s r) = Some data \<and>
            calls_of (Run_handler lib s r) =
              [CallCanRead token (requestPath s r), CallRead (requestPath s r) 0 0])"
proof (intro conjI allI impI)
  fix rg item data
  assume A: "Get (Header r) ''Range'' \<noteq> [] \<and>
    parseRange (Get (Header r) ''Range'') = Inr rg \<and>
    Read (backend s) (requestPath s r) (Start rg)
      (if End rg \<noteq> MAX_INT64 then End rg - Start rg + 1 else 0) = Inr (item, data) \<and>
    0 \<le> Size item \<and> is_int64 (Size item)"
  then have hne: "Get (Header r) ''Range'' \<noteq> []"
    and pr: "parseRange (Get (Header r) ''Range'') = Inr rg"
    and rd: "Read (backend s) (requestPath s r) (Start rg)
      (if End rg \<noteq> MAX_INT64 then End rg - Start rg + 1 else 0) = Inr (item, data)"
    and sz: "0 \<le> Size item" "is_int64 (Size item)"
    by simp_all
  note R = ranged_response [OF box meth direct tok allowed plain hne pr rd sz]
  show "status_of (Run_handler lib s r) = Some 206" using R by (rule conjunct1)
  show "header_of (Run_handler lib s r) ''Content-Range'' =
      Some (''bytes '' @ fmt_d (Start rg) @ ''-'' @
            fmt_d (if End rg = MAX_INT64 then Size item - 1 else End rg) @
            ''/'' @ fmt_d (Size item))"
    using R by (elim conjE)
  show "header_of (Run_handler lib s r) ''Content-Length'' =
      (if Start rg \<le> (if End rg = MAX_INT64 then Size item - 1 else End rg) + 1
       then Some (fmt_d ((if End rg = MAX_INT64 then Size item - 1 else End rg)
                         - Start rg + 1))
       else None)"
    using R by (elim conjE)
  show "body_of (Run_handler lib s r) = Some data" using R by (elim conjE)
  show "calls_of (Run_handler lib s r) =
      [CallCanRead token (requestPath s r),
       CallRead (requestPath s r) (Start rg)
         (if End rg \<noteq> MAX_INT64 then End rg - Start rg + 1 else 0)]"
    using R by (elim conjE)
next
  fix item data
  assume A: "Get (Header r) ''Range'' = [] \<and>
    Read (backend s) (requestPath s r) 0 0 = Inr (item, data) \<and>
    0 \<le> Size item \<and> is_int64 (Size item)"
  then have none: "Get (Header r) ''Range'' = []"
    and rd: "Read (backend s) (requestPath s r) 0 0 = Inr (item, data)"
    and sz: "0 \<le> Size item" "is_int64 (Size item)"
    by simp_all
  note W = whole_response [OF box meth direct tok allowed plain none rd sz]
  show "status_of (Run_handler lib s r) = Some 200" using W by (rule conjunct1)
  show "header_of (Run_handler lib s r) ''Content-Length'' = Some (fmt_d (Size item))"
    using W by (elim conjE)
  show "body_of (Run_handler lib s r) = Some data" using W by (elim conjE)
  show "calls_of (Run_handler lib s r) =
      [CallCanRead token (requestPath s r), CallRead (requestPath s r) 0 0]"
    using W by (elim conjE)
qed


text \<open>
  \<^verbatim>\<open>Range: bytes=10-19\<close> on the 100-byte file gives 206, \<^verbatim>\<open>bytes 10-19/100\<close> and the
  length 10; \<^verbatim>\<open>bytes=90-\<close> gives \<^verbatim>\<open>bytes 90-99/100\<close> and the length 10; \<^verbatim>\<open>bytes=50-10\<close>
  gives 206 without a length; no range gives 200 and the length 100.
\<close>

theorem get_file_response_witness:
  "status_of (Run_handler demo_lib demo_server request_range) = Some 206 \<and>
   header_of (Run_handler demo_lib demo_server request_range) ''Content-Range'' =
     Some ''bytes 10-19/100'' \<and>
   header_of (Run_handler demo_lib demo_server request_range) ''Content-Length'' = Some ''10'' \<and>
   body_of (Run_handler demo_lib demo_server request_range) = Some ''abcdefghij'' \<and>
   status_of (Run_handler demo_lib demo_server request_open_range) = Some 206 \<and>
   header_of (Run_handler demo_lib demo_server request_open_range) ''Content-Range'' =
     Some ''bytes 90-99/100'' \<and>
   header_of (Run_handler demo_lib demo_server request_open_range) ''Content-Length'' =
     Some ''10'' \<and>
   body_of (Run_handler demo_lib demo_server request_open_range) = Some ''0123456789'' \<and>
   status_of (Run_handler demo_lib demo_server request_range_reversed) = Some 206 \<and>
   header_of (Run_handler demo_lib demo_server request_range_reversed) ''Content-Range'' =
     Some ''bytes 50-10/100'' \<and>
   header_of (Run_handler demo_lib demo_server request_range_reversed) ''Content-Length'' =
     None \<and>
   status_of (Run_handler demo_lib demo_server request_whole) = Some 200 \<and>
   header_of (Run_handler demo_lib demo_server request_whole) ''Content-Length'' = Some ''100'' \<and>
   body_of (Run_handler demo_lib demo_server request_whole) = Some demo_content"
proof -
  have m: "Method request_range = ''GET''" "Method request_open_range = ''GET''"
    "Method request_whole = ''GET''" "Method request_range_reversed = ''GET''"
    by (simp_all add: request_range_def request_open_range_def request_whole_def
        request_range_reversed_def demo_request_def)
  have p: "requestPath demo_server request_range = ''/docs/a.txt''"
    "requestPath demo_server request_open_range = ''/docs/a.txt''"
    "requestPath demo_server request_whole = ''/docs/a.txt''"
    "requestPath demo_server request_range_reversed = ''/docs/a.txt''"
    by (simp_all add: requestPath_def demo_server_def demo_request_def Get_def
        request_range_def request_open_range_def request_whole_def request_range_reversed_def)
  have d: "length (strings_Split (requestPath demo_server request_range) ''gemdrive/'') \<noteq> 2"
    "length (strings_Split (requestPath demo_server request_open_range) ''gemdrive/'') \<noteq> 2"
    "length (strings_Split (requestPath demo_server request_whole) ''gemdrive/'') \<noteq> 2"
    "length (strings_Split (requestPath demo_server request_range_reversed) ''gemdrive/'') \<noteq> 2"
    by (simp_all add: p demo_direct)
  have t: "extractToken request_range = Inr (''secret'', None)"
    "extractToken request_open_range = Inr (''secret'', None)"
    "extractToken request_whole = Inr (''secret'', None)"
    "extractToken request_range_reversed = Inr (''secret'', None)"
    by (simp_all add: extractToken_def Get_def request_range_def request_open_range_def
        request_whole_def request_range_reversed_def demo_request_def)
  have f: "\<not> strings_HasSuffix (requestPath demo_server request_range) ''/''"
    "\<not> strings_HasSuffix (requestPath demo_server request_open_range) ''/''"
    "\<not> strings_HasSuffix (requestPath demo_server request_whole) ''/''"
    "\<not> strings_HasSuffix (requestPath demo_server request_range_reversed) ''/''"
    by (simp_all add: p strings_HasSuffix_def)
  have h: "Get (Header request_range) ''Range'' = ''bytes=10-19''"
    "Get (Header request_open_range) ''Range'' = ''bytes=90-''"
    "Get (Header request_whole) ''Range'' = []"
    "Get (Header request_range_reversed) ''Range'' = ''bytes=50-10''"
    by (simp_all add: Get_def request_range_def request_open_range_def request_whole_def
        request_range_reversed_def demo_request_def)
  have rd: "Read (backend demo_server) ''/docs/a.txt'' 10 10 = Inr (Item 100 [], ''abcdefghij'')"
    "Read (backend demo_server) ''/docs/a.txt'' 90 0 = Inr (Item 100 [], ''0123456789'')"
    "Read (backend demo_server) ''/docs/a.txt'' 0 0 = Inr (Item 100 [], demo_content)"
    "Read (backend demo_server) ''/docs/a.txt'' 50 (- 39) = Inr (Item 100 [], [])"
    by (simp_all add: demo_server_def demo_backend_def demo_content_def)
  have sz: "is_int64 100" "MAX_INT64 \<noteq> 19" "MAX_INT64 \<noteq> 10"
    by (simp_all add: is_int64_def MAX_INT64_def)
  show ?thesis
    using get_file_response [OF demo_box m(1) d(1) t(1) demo_secret(1) f(1)]
      get_file_response [OF demo_box m(2) d(2) t(2) demo_secret(1) f(2)]
      get_file_response [OF demo_box m(3) d(3) t(3) demo_secret(1) f(3)]
      get_file_response [OF demo_box m(4) d(4) t(4) demo_secret(1) f(4)]
    by (simp add: p h demo_parseRange rd sz demo_fmt_d)
qed

section \<open>Malformed \<^verbatim>\<open>Range\<close> headers\<close>

text \<open>
  Claim C4. \<^verbatim>\<open>parseRange\<close> accepts exactly the headers \<^verbatim>\<open>u=a-b\<close> with one \<^verbatim>\<open>=\<close>, one
  \<^verbatim>\<open>-\<close> after it, and each of \<open>a\<close> and \<open>b\<close> empty or read by \<^verbatim>\<open>strconv.ParseInt\<close>: an
  omitted start is 0 and an omitted end is \<^verbatim>\<open>MAX_INT64\<close>, which \<^verbatim>\<open>serveFile\<close> takes as
  "to the end of the file". First part: every such header is parsed that way. Second
  part: every header that is parsed has that shape. Third part: when an authorized GET of a
  file carries a \<^verbatim>\<open>Range\<close> header (a text that is not empty: \<^verbatim>\<open>serveFile\<close> takes the empty
  text for no header) that \<^verbatim>\<open>parseRange\<close> rejects, the status is 500, not 400, the body is
  the text of the error, and \<^verbatim>\<open>Read\<close> is not invoked.
\<close>

theorem range_header_grammar:
  "(CHR ''='' \<notin> set u \<and> CHR ''='' \<notin> set a \<and> CHR ''='' \<notin> set b \<and>
    CHR ''-'' \<notin> set a \<and> CHR ''-'' \<notin> set b \<longrightarrow>
      parseRange (u @ ''='' @ a @ ''-'' @ b) =
        (case (if a \<noteq> [] then strconv_ParseInt a else Inr 0) of
           Inl err \<Rightarrow> Inl err
         | Inr start \<Rightarrow>
             (case (if b \<noteq> [] then strconv_ParseInt b else Inr MAX_INT64) of
                Inl err \<Rightarrow> Inl err
              | Inr end \<Rightarrow> Inr \<lparr>Start = start, End = end\<rparr>))) \<and>
   (parseRange h = Inr rg \<longrightarrow>
      (\<exists>u a b. h = u @ ''='' @ a @ ''-'' @ b \<and>
         CHR ''='' \<notin> set u \<and> CHR ''='' \<notin> set a \<and> CHR ''='' \<notin> set b \<and>
         CHR ''-'' \<notin> set a \<and> CHR ''-'' \<notin> set b \<and>
         (if a = [] then Start rg = 0 else strconv_ParseInt a = Inr (Start rg)) \<and>
         (if b = [] then End rg = MAX_INT64 else strconv_ParseInt b = Inr (End rg)))) \<and>
   (rice_FindBox lib ''files'' = Inr box \<and> box ''login.html'' = Inr html \<and>
    Method r = ''GET'' \<and>
    length (strings_Split (requestPath s r) ''gemdrive/'') \<noteq> 2 \<and>
    extractToken r = Inr (token, e) \<and>
    CanRead (auth s) token (requestPath s r) \<and>
    \<not> strings_HasSuffix (requestPath s r) ''/'' \<and>
    Get (Header r) ''Range'' \<noteq> [] \<and>
    parseRange (Get (Header r) ''Range'') = Inl err \<longrightarrow>
      status_of (Run_handler lib s r) = Some 500 \<and>
      body_of (Run_handler lib s r) = Some (err_Error err) \<and>
      calls_of (Run_handler lib s r) = [CallCanRead token (requestPath s r)])"
proof (intro conjI impI)
  assume "CHR ''='' \<notin> set u \<and> CHR ''='' \<notin> set a \<and> CHR ''='' \<notin> set b \<and>
    CHR ''-'' \<notin> set a \<and> CHR ''-'' \<notin> set b"
  then show "parseRange (u @ ''='' @ a @ ''-'' @ b) =
      (case (if a \<noteq> [] then strconv_ParseInt a else Inr 0) of
         Inl err \<Rightarrow> Inl err
       | Inr start \<Rightarrow>
           (case (if b \<noteq> [] then strconv_ParseInt b else Inr MAX_INT64) of
              Inl err \<Rightarrow> Inl err
            | Inr end \<Rightarrow> Inr \<lparr>Start = start, End = end\<rparr>))"
    by (intro parseRange_accepts) simp_all
next
  assume "parseRange h = Inr rg"
  then show "\<exists>u a b. h = u @ ''='' @ a @ ''-'' @ b \<and>
      CHR ''='' \<notin> set u \<and> CHR ''='' \<notin> set a \<and> CHR ''='' \<notin> set b \<and>
      CHR ''-'' \<notin> set a \<and> CHR ''-'' \<notin> set b \<and>
      (if a = [] then Start rg = 0 else strconv_ParseInt a = Inr (Start rg)) \<and>
      (if b = [] then End rg = MAX_INT64 else strconv_ParseInt b = Inr (End rg))"
    by (rule parseRange_Inr)
next
  assume A: "rice_FindBox lib ''files'' = Inr box \<and> box ''login.html'' = Inr html \<and>
    Method r = ''GET'' \<and>
    length (strings_Split (requestPath s r) ''gemdrive/'') \<noteq> 2 \<and>
    extractToken r = Inr (token, e) \<and>
    CanRead (auth s) token (requestPath s r) \<and>
    \<not> strings_HasSuffix (requestPath s r) ''/'' \<and>
    Get (Header r) ''Range'' \<noteq> [] \<and>
    parseRange (Get (Header r) ''Range'') = Inl err"
  let ?s = "s\<lparr>loginHtml := html\<rparr>"
  let ?w = "entry_writer lib (requestPath s r)"
  let ?p = "requestPath s r"
  let ?w2 = "if Get (Query r) ''download'' = ''true''
             then header_Set ''Content-Disposition'' ''attachment''
                    (header_Set ''Accept-Ranges'' ''bytes'' ?w)
             else header_Set ''Accept-Ranges'' ''bytes'' ?w"
  from A have box: "rice_FindBox lib ''files'' = Inr box" "box ''login.html'' = Inr html"
    and meth: "Method r = ''GET''"
    and direct: "length (strings_Split (requestPath s r) ''gemdrive/'') \<noteq> 2"
    and tok: "extractToken r = Inr (token, e)"
    and allowed: "CanRead (auth s) token (requestPath s r)"
    and plain: "\<not> strings_HasSuffix (requestPath s r) ''/''"
    by simp_all
  have run: "Run_handler lib s r = serveFile lib ?s ?w r ?p [CallCanRead token ?p]"
    by (rule Run_handler_GET_file [OF box meth direct tok allowed plain])
  have w2: "status ?w2 = None" "body ?w2 = []"
    by (rule serveFile_writer [OF entry_writer_fresh])+
  from A have sf: "serveFile lib ?s ?w r ?p [CallCanRead token ?p] =
      Done (fail_with 500 (err_Error err) ?w2) [CallCanRead token ?p]"
    by (simp add: serveFile_def Let_def)
  have st: "wire_status (fail_with 500 (err_Error err) ?w2) = 500"
    "body (fail_with 500 (err_Error err) ?w2) = err_Error err"
    using w2 by (simp_all add: writer_defs)
  show "status_of (Run_handler lib s r) = Some 500"
    "body_of (Run_handler lib s r) = Some (err_Error err)"
    "calls_of (Run_handler lib s r) = [CallCanRead token ?p]"
    by (simp_all add: run sf st)
qed

text \<open>
  An open end, an open start, the shape of \<^verbatim>\<open>bytes=10-19\<close>, a bound that is no integer and
  a header with two \<^verbatim>\<open>-\<close>.
\<close>

theorem range_header_grammar_witness:
  "parseRange ''bytes=10-'' = Inr \<lparr>Start = 10, End = MAX_INT64\<rparr> \<and>
   parseRange ''bytes=-5'' = Inr \<lparr>Start = 0, End = 5\<rparr> \<and>
   parseRange ''bytes=10-19'' = Inr \<lparr>Start = 10, End = 19\<rparr> \<and>
   (\<exists>u a b. ''bytes=10-19'' = u @ ''='' @ a @ ''-'' @ b \<and>
      CHR ''='' \<notin> set u \<and> CHR ''='' \<notin> set a \<and> CHR ''='' \<notin> set b \<and>
      CHR ''-'' \<notin> set a \<and> CHR ''-'' \<notin> set b \<and>
      (if a = [] then Start \<lparr>Start = 10, End = 19\<rparr> = 0
       else strconv_ParseInt a = Inr (Start \<lparr>Start = 10, End = 19\<rparr>)) \<and>
      (if b = [] then End \<lparr>Start = 10, End = 19\<rparr> = MAX_INT64
       else strconv_ParseInt b = Inr (End \<lparr>Start = 10, End = 19\<rparr>))) \<and>
   (status_of (Run_handler demo_lib demo_server request_bad_bound) = Some 500 \<and>
    body_of (Run_handler demo_lib demo_server request_bad_bound) =
      Some (err_Error (NumError ''strconv.ParseInt'' ''a'' ErrSyntax)) \<and>
    calls_of (Run_handler demo_lib demo_server request_bad_bound) =
      [CallCanRead ''secret'' ''/docs/a.txt'']) \<and>
   (status_of (Run_handler demo_lib demo_server request_two_ranges) = Some 500 \<and>
    body_of (Run_handler demo_lib demo_server request_two_ranges) =
      Some (err_Error (PlainError ''Invalid Range header'')) \<and>
    calls_of (Run_handler demo_lib demo_server request_two_ranges) =
      [CallCanRead ''secret'' ''/docs/a.txt''])"
proof -
  have m: "Method request_bad_bound = ''GET''" "Method request_two_ranges = ''GET''"
    by (simp_all add: request_bad_bound_def request_two_ranges_def demo_request_def)
  have p: "requestPath demo_server request_bad_bound = ''/docs/a.txt''"
    "requestPath demo_server request_two_ranges = ''/docs/a.txt''"
    by (simp_all add: requestPath_def demo_server_def demo_request_def Get_def
        request_bad_bound_def request_two_ranges_def)
  have t: "extractToken request_bad_bound = Inr (''secret'', None)"
    "extractToken request_two_ranges = Inr (''secret'', None)"
    by (simp_all add: extractToken_def Get_def request_bad_bound_def request_two_ranges_def
        demo_request_def)
  have h: "Get (Header request_bad_bound) ''Range'' = ''bytes=a-19''"
    "Get (Header request_two_ranges) ''Range'' = ''bytes=0-4-9''"
    by (simp_all add: Get_def request_bad_bound_def request_two_ranges_def demo_request_def)
  have f: "\<not> strings_HasSuffix ''/docs/a.txt'' ''/''" by (simp add: strings_HasSuffix_def)
  have n: "strconv_ParseInt ''10'' = Inr 10" "strconv_ParseInt ''5'' = Inr 5"
    by (simp_all add: parse_defs)
  have open_end: "parseRange ''bytes=10-'' = Inr \<lparr>Start = 10, End = MAX_INT64\<rparr>"
    using range_header_grammar [where u = "''bytes''" and a = "''10''" and b = "[]",
        THEN conjunct1]
    by (simp add: n)
  have open_start: "parseRange ''bytes=-5'' = Inr \<lparr>Start = 0, End = 5\<rparr>"
    using range_header_grammar [where u = "''bytes''" and a = "[]" and b = "''5''",
        THEN conjunct1]
    by (simp add: n)
  have shape: "\<exists>u a b. ''bytes=10-19'' = u @ ''='' @ a @ ''-'' @ b \<and>
      CHR ''='' \<notin> set u \<and> CHR ''='' \<notin> set a \<and> CHR ''='' \<notin> set b \<and>
      CHR ''-'' \<notin> set a \<and> CHR ''-'' \<notin> set b \<and>
      (if a = [] then Start \<lparr>Start = 10, End = 19\<rparr> = 0
       else strconv_ParseInt a = Inr (Start \<lparr>Start = 10, End = 19\<rparr>)) \<and>
      (if b = [] then End \<lparr>Start = 10, End = 19\<rparr> = MAX_INT64
       else strconv_ParseInt b = Inr (End \<lparr>Start = 10, End = 19\<rparr>))"
    using range_header_grammar [where h = "''bytes=10-19''"
        and rg = "\<lparr>Start = 10, End = 19\<rparr>", THEN conjunct2, THEN conjunct1]
      demo_parseRange(1)
    by (rule mp)
  have bad: "status_of (Run_handler demo_lib demo_server request_bad_bound) = Some 500 \<and>
      body_of (Run_handler demo_lib demo_server request_bad_bound) =
        Some (err_Error (NumError ''strconv.ParseInt'' ''a'' ErrSyntax)) \<and>
      calls_of (Run_handler demo_lib demo_server request_bad_bound) =
        [CallCanRead ''secret'' ''/docs/a.txt'']"
    using range_header_grammar [where lib = demo_lib and r = request_bad_bound
        and s = demo_server and token = "''secret''" and e = None
        and box = "\<lambda>f. Inr ''<html>login</html>''" and html = "''<html>login</html>''"
        and err = "NumError ''strconv.ParseInt'' ''a'' ErrSyntax",
        THEN conjunct2, THEN conjunct2]
    by (simp add: demo_box(1) m p t h f demo_secret demo_direct demo_parseRange)
  have two: "status_of (Run_handler demo_lib demo_server request_two_ranges) = Some 500 \<and>
      body_of (Run_handler demo_lib demo_server request_two_ranges) =
        Some (err_Error (PlainError ''Invalid Range header'')) \<and>
      calls_of (Run_handler demo_lib demo_server request_two_ranges) =
        [CallCanRead ''secret'' ''/docs/a.txt'']"
    using range_header_grammar [where lib = demo_lib and r = request_two_ranges
        and s = demo_server and token = "''secret''" and e = None
        and box = "\<lambda>f. Inr ''<html>login</html>''" and html = "''<html>login</html>''"
        and err = "PlainError ''Invalid Range header''",
        THEN conjunct2, THEN conjunct2]
    by (simp add: demo_box(1) m p t h f demo_secret demo_direct demo_parseRange)
  show ?thesis
    by (intro conjI open_end open_start shape demo_parseRange(1) bad [THEN conjunct1]
        bad [THEN conjunct2, THEN conjunct1] bad [THEN conjunct2, THEN conjunct2]
        two [THEN conjunct1] two [THEN conjunct2, THEN conjunct1]
        two [THEN conjunct2, THEN conjunct2])
qed

section \<open>Token extraction\<close>

text \<open>
  Claim C5 says that the token of the \<^verbatim>\<open>Authorization\<close> header is its second
  whitespace-delimited field. \<^verbatim>\<open>extractToken\<close> takes element 1 of the split at every single
  space: for the header \<^verbatim>\<open>Bearer\<close>, two spaces, \<^verbatim>\<open>secret\<close>, the second field is
  \<^verbatim>\<open>secret\<close>, but element 1 of the split is the empty text between the two spaces. The
  capability check runs with the empty token and the request is refused.
\<close>

theorem two_spaces_empty_token:
  "Get (Query request_two_spaces) ''access_token'' = [] \<and>
   Get (Header request_two_spaces) ''Authorization'' = ''Bearer  secret'' \<and>
   spec_whitespace_fields ''Bearer  secret'' = [''Bearer'', ''secret''] \<and>
   strings_Split ''Bearer  secret'' '' '' = [''Bearer'', [], ''secret''] \<and>
   extractToken request_two_spaces = Inr ([], None) \<and>
   calls_of (Run_handler demo_lib demo_server request_two_spaces) =
     [CallCanRead [] ''/docs/a.txt''] \<and>
   status_of (Run_handler demo_lib demo_server request_two_spaces) = Some 403"
  by (simp add: handler_defs demo_defs request_two_spaces_def writer_defs Let_def
      spec_whitespace_fields_def is_space_def)

text \<open>
  Claim C5, amended. A query parameter \<^verbatim>\<open>access_token\<close> that is not empty is the token.
  Otherwise, when the \<^verbatim>\<open>Authorization\<close> header contains a space, the token is the text
  between its first space and its second space (or its end), whatever the cookie says.
  Otherwise, when the header is absent or empty, the token is the value of the cookie
  \<^verbatim>\<open>access_token\<close> when there is one, and the empty text when there is none. In that last
  case every handler but \<^verbatim>\<open>authorize\<close> still begins with the capability check, made with
  the empty token. (A header that is not empty and has no space is the subject of claim
  C9.)
\<close>

theorem token_extraction:
  "(Get (Query r) ''access_token'' \<noteq> [] \<longrightarrow>
      extractToken r = Inr (Get (Query r) ''access_token'', None)) \<and>
   (Get (Query r) ''access_token'' = [] \<and>
    CHR '' '' \<in> set (Get (Header r) ''Authorization'') \<longrightarrow>
      extractToken r =
        Inr (takeWhile (\<lambda>c. c \<noteq> CHR '' '')
               (tl (dropWhile (\<lambda>c. c \<noteq> CHR '' '') (Get (Header r) ''Authorization''))),
             None)) \<and>
   (Get (Query r) ''access_token'' = [] \<and> Get (Header r) ''Authorization'' = [] \<longrightarrow>
      extractToken r =
        (case map_of (Cookies r) ''access_token'' of
           Some v \<Rightarrow> Inr (v, None)
         | None \<Rightarrow> Inr ([], Some (PlainError ''No token found'')))) \<and>
   (Get (Query r) ''access_token'' = [] \<and> Get (Header r) ''Authorization'' = [] \<and>
    map_of (Cookies r) ''access_token'' = None \<longrightarrow>
      take 1 (calls_of (handleHead lib s w r p)) = [CallCanRead [] p] \<and>
      take 1 (calls_of (serveItem lib s w r p)) = [CallCanRead [] p] \<and>
      take 1 (calls_of (handlePut lib s w r p)) = [CallCanWrite [] p] \<and>
      take 1 (calls_of (handlePatch lib s w r p)) = [CallCanWrite [] p] \<and>
      take 1 (calls_of (handleDelete lib s w r p)) = [CallCanWrite [] p] \<and>
      (strings_Split p ''gemdrive/'' = [gemPath, gemReq] \<and> gemReq \<noteq> ''authorize'' \<longrightarrow>
         take 1 (calls_of (handleGemDriveRequest lib s w r p)) = [CallCanRead [] gemPath]))"
proof (intro conjI impI)
  assume "Get (Query r) ''access_token'' \<noteq> []"
  then show "extractToken r = Inr (Get (Query r) ''access_token'', None)"
    by (simp add: extractToken_def Let_def)
next
  assume A: "Get (Query r) ''access_token'' = [] \<and>
    CHR '' '' \<in> set (Get (Header r) ''Authorization'')"
  then have ne: "Get (Header r) ''Authorization'' \<noteq> []" by auto
  from A strings_Split_second [of "CHR '' ''" "Get (Header r) ''Authorization''"]
  show "extractToken r =
      Inr (takeWhile (\<lambda>c. c \<noteq> CHR '' '')
             (tl (dropWhile (\<lambda>c. c \<noteq> CHR '' '') (Get (Header r) ''Authorization''))),
           None)"
    using ne by (simp add: extractToken_def Let_def)
next
  assume "Get (Query r) ''access_token'' = [] \<and> Get (Header r) ''Authorization'' = []"
  then show "extractToken r =
      (case map_of (Cookies r) ''access_token'' of
         Some v \<Rightarrow> Inr (v, None)
       | None \<Rightarrow> Inr ([], Some (PlainError ''No token found'')))"
    by (simp add: extractToken_def Cookie_def Let_def split: option.split)
next
  assume A: "Get (Query r) ''access_token'' = [] \<and> Get (Header r) ''Authorization'' = [] \<and>
    map_of (Cookies r) ''access_token'' = None"
  then have tok: "extractToken r = Inr ([], Some (PlainError ''No token found''))"
    by (simp add: extractToken_def Cookie_def Let_def)
  show "take 1 (calls_of (handleHead lib s w r p)) = [CallCanRead [] p]"
    by (rule first_call_handleHead [OF tok])
  show "take 1 (calls_of (serveItem lib s w r p)) = [CallCanRead [] p]"
    by (rule first_call_serveItem [OF tok])
  show "take 1 (calls_of (handlePut lib s w r p)) = [CallCanWrite [] p]"
    by (rule first_call_handlePut [OF tok])
  show "take 1 (calls_of (handlePatch lib s w r p)) = [CallCanWrite [] p]"
    by (rule first_call_handlePatch [OF tok])
  show "take 1 (calls_of (handleDelete lib s w r p)) = [CallCanWrite [] p]"
    by (rule first_call_handleDelete [OF tok])
  show "take 1 (calls_of (handleGemDriveRequest lib s w r p)) = [CallCanRead [] gemPath]"
    if "strings_Split p ''gemdrive/'' = [gemPath, gemReq] \<and> gemReq \<noteq> ''authorize''"
    using that first_call_handleGemDriveRequest [OF tok] by blast
qed

text \<open>A token in the query, in the header, in the cookie, and nowhere.\<close>

theorem token_extraction_witness:
  "extractToken request_query_token = Inr (''secret'', None) \<and>
   extractToken request_bearer = Inr (''secret'', None) \<and>
   extractToken request_cookie = Inr (''secret'', None) \<and>
   extractToken demo_request = Inr ([], Some (PlainError ''No token found'')) \<and>
   take 1 (calls_of (serveItem demo_lib demo_server new_response demo_request ''/docs/a.txt'')) =
     [CallCanRead [] ''/docs/a.txt''] \<and>
   take 1 (calls_of (handlePut demo_lib demo_server new_response demo_request ''/docs/a.txt'')) =
     [CallCanWrite [] ''/docs/a.txt''] \<and>
   take 1 (calls_of (handleGemDriveRequest demo_lib demo_server new_response demo_request
                       ''/docs/gemdrive/meta.json'')) = [CallCanRead [] ''/docs/'']"
proof -
  have q: "Get (Query request_query_token) ''access_token'' = ''secret''"
    "Get (Query request_bearer) ''access_token'' = []"
    "Get (Query request_cookie) ''access_token'' = []"
    "Get (Query demo_request) ''access_token'' = []"
    by (simp_all add: Get_def request_query_token_def request_bearer_def request_cookie_def
        demo_request_def)
  have h: "Get (Header request_bearer) ''Authorization'' = ''Bearer secret''"
    "Get (Header request_cookie) ''Authorization'' = []"
    "Get (Header demo_request) ''Authorization'' = []"
    by (simp_all add: Get_def request_bearer_def request_cookie_def demo_request_def)
  have c: "map_of (Cookies request_cookie) ''access_token'' = Some ''secret''"
    "map_of (Cookies demo_request) ''access_token'' = None"
    by (simp_all add: request_cookie_def demo_request_def)
  have sp: "strings_Split ''/docs/gemdrive/meta.json'' ''gemdrive/'' = [''/docs/'', ''meta.json'']"
    by (simp add: strings_Split_def)
  have a: "extractToken request_query_token = Inr (''secret'', None)"
    using token_extraction [where r = request_query_token, THEN conjunct1] by (simp add: q)
  have b: "extractToken request_bearer = Inr (''secret'', None)"
    using token_extraction [where r = request_bearer, THEN conjunct2, THEN conjunct1]
    by (simp add: q h)
  have k: "extractToken request_cookie = Inr (''secret'', None)"
    using token_extraction [where r = request_cookie, THEN conjunct2, THEN conjunct2,
        THEN conjunct1]
    by (simp add: q h c)
  have n: "extractToken demo_request = Inr ([], Some (PlainError ''No token found''))"
    using token_extraction [where r = demo_request, THEN conjunct2, THEN conjunct2,
        THEN conjunct1]
    by (simp add: q h c)
  have anon:
    "take 1 (calls_of (serveItem demo_lib demo_server new_response demo_request ''/docs/a.txt'')) =
       [CallCanRead [] ''/docs/a.txt''] \<and>
     take 1 (calls_of (handlePut demo_lib demo_server new_response demo_request ''/docs/a.txt'')) =
       [CallCanWrite [] ''/docs/a.txt''] \<and>
     take 1 (calls_of (handleGemDriveRequest demo_lib demo_server new_response demo_request
                         ''/docs/gemdrive/meta.json'')) = [CallCanRead [] ''/docs/'']"
    using token_extraction [where r = demo_request and lib = demo_lib and s = demo_server
        and w = new_response and p = "''/docs/a.txt''",
        THEN conjunct2, THEN conjunct2, THEN conjunct2]
      token_extraction [where r = demo_request and lib = demo_lib and s = demo_server
        and w = new_response and p = "''/docs/gemdrive/meta.json''"
        and gemPath = "''/docs/''" and gemReq = "''meta.json''",
        THEN conjunct2, THEN conjunct2, THEN conjunct2]
    by (simp add: q h c sp)
  from a b k n anon show ?thesis by blast
qed

section \<open>The depth of \<^verbatim>\<open>meta.json\<close>\<close>

text \<open>
  Claim C6 says that a depth that does not parse as a non-negative integer, a negative
  integer included, fails with status 400 before \<^verbatim>\<open>List\<close> is invoked. The handler only
  asks \<^verbatim>\<open>strconv.Atoi\<close> for an integer: with \<^verbatim>\<open>depth=-1\<close> the backend's \<^verbatim>\<open>List\<close> is invoked
  with depth \<open>-1\<close>, and on the small installation the answer is 200.
\<close>

theorem negative_depth_reaches_List:
  "strconv_Atoi ''-1'' = Inr (- 1) \<and>
   calls_of (Run_handler demo_lib demo_server request_depth_negative) =
     [CallCanRead ''secret'' ''/docs/'', CallList ''/docs/'' (- 1)] \<and>
   status_of (Run_handler demo_lib demo_server request_depth_negative) = Some 200"
  by (simp add: handler_defs demo_defs request_depth_negative_def writer_defs parse_defs Let_def)

text \<open>
  Claim C6, amended. For a \<^verbatim>\<open>meta.json\<close> request that passes the read check: without a
  depth parameter \<^verbatim>\<open>List\<close> is invoked with depth 1; a depth that \<^verbatim>\<open>strconv.Atoi\<close> rejects
  (not an optional sign followed by decimal digits, or outside the range of the integer
  type) fails with status 400 and \<^verbatim>\<open>List\<close> is not invoked; every depth that
  \<^verbatim>\<open>strconv.Atoi\<close> accepts, negative ones too, is passed to \<^verbatim>\<open>List\<close> as it is.
\<close>

theorem meta_json_depth:
  assumes box: "rice_FindBox lib ''files'' = Inr box" "box ''login.html'' = Inr html"
    and meth: "Method r \<noteq> ''OPTIONS''"
    and marker: "strings_Split (requestPath s r) ''gemdrive/'' = [gemPath, ''meta.json'']"
    and tok: "extractToken r = Inr (token, e)"
    and allowed: "CanRead (auth s) token gemPath"
  shows "(Get (Query r) ''depth'' = [] \<longrightarrow>
            calls_of (Run_handler lib s r) = [CallCanRead token gemPath, CallList gemPath 1]) \<and>
         (\<forall>err. Get (Query r) ''depth'' \<noteq> [] \<and>
                strconv_Atoi (Get (Query r) ''depth'') = Inl err \<longrightarrow>
            status_of (Run_handler lib s r) = Some 400 \<and>
            body_of (Run_handler lib s r) = Some ''Invalid depth param'' \<and>
            calls_of (Run_handler lib s r) = [CallCanRead token gemPath]) \<and>
         (\<forall>n. Get (Query r) ''depth'' \<noteq> [] \<and>
              strconv_Atoi (Get (Query r) ''depth'') = Inr n \<longrightarrow>
            calls_of (Run_handler lib s r) = [CallCanRead token gemPath, CallList gemPath n])"
proof -
  let ?s = "s\<lparr>loginHtml := html\<rparr>"
  let ?w = "entry_writer lib (requestPath s r)"
  let ?p = "requestPath s r"
  have run: "Run_handler lib s r = handleGemDriveRequest lib ?s ?w r ?p"
    using Run_handler_route [OF box meth] marker by (simp add: route_def)
  have absent: "Get (Query r) ''depth'' = [] \<Longrightarrow>
      calls_of (handleGemDriveRequest lib ?s ?w r ?p) =
        [CallCanRead token gemPath, CallList gemPath 1]"
    using marker tok allowed
    by (simp add: handleGemDriveRequest_def Let_def split: sum.split go_error.split)
  have bad: "Get (Query r) ''depth'' \<noteq> [] \<Longrightarrow>
      strconv_Atoi (Get (Query r) ''depth'') = Inl err \<Longrightarrow>
      handleGemDriveRequest lib ?s ?w r ?p =
        Done (fail_with 400 ''Invalid depth param'' ?w) [CallCanRead token gemPath]" for err
    using marker tok allowed by (simp add: handleGemDriveRequest_def Let_def)
  have good: "Get (Query r) ''depth'' \<noteq> [] \<Longrightarrow>
      strconv_Atoi (Get (Query r) ''depth'') = Inr n \<Longrightarrow>
      calls_of (handleGemDriveRequest lib ?s ?w r ?p) =
        [CallCanRead token gemPath, CallList gemPath n]" for n
    using marker tok allowed
    by (simp add: handleGemDriveRequest_def Let_def split: sum.split go_error.split)
  have st: "wire_status (fail_with 400 ''Invalid depth param'' ?w) = 400"
    "body (fail_with 400 ''Invalid depth param'' ?w) = ''Invalid depth param''"
    by (simp_all add: writer_defs entry_writer_fresh)
  show ?thesis using absent bad good st by (simp add: run)
qed

text \<open>No depth, the depth \<^verbatim>\<open>deep\<close> and the depth 2.\<close>

theorem meta_json_depth_witness:
  "calls_of (Run_handler demo_lib demo_server request_depth_absent) =
     [CallCanRead ''secret'' ''/docs/'', CallList ''/docs/'' 1] \<and>
   strconv_Atoi ''deep'' = Inl (NumError ''strconv.Atoi'' ''deep'' ErrSyntax) \<and>
   status_of (Run_handler demo_lib demo_server request_depth_word) = Some 400 \<and>
   body_of (Run_handler demo_lib demo_server request_depth_word) = Some ''Invalid depth param'' \<and>
   calls_of (Run_handler demo_lib demo_server request_depth_word) =
     [CallCanRead ''secret'' ''/docs/''] \<and>
   strconv_Atoi ''2'' = Inr 2 \<and>
   calls_of (Run_handler demo_lib demo_server request_depth_two) =
     [CallCanRead ''secret'' ''/docs/'', CallList ''/docs/'' 2]"
proof -
  have m: "Method request_depth_absent \<noteq> ''OPTIONS''" "Method request_depth_word \<noteq> ''OPTIONS''"
    "Method request_depth_two \<noteq> ''OPTIONS''"
    by (simp_all add: request_depth_absent_def request_depth_word_def request_depth_two_def
        demo_request_def)
  have s: "strings_Split (requestPath demo_server request_depth_absent) ''gemdrive/'' =
      [''/docs/'', ''meta.json'']"
    "strings_Split (requestPath demo_server request_depth_word) ''gemdrive/'' =
      [''/docs/'', ''meta.json'']"
    "strings_Split (requestPath demo_server request_depth_two) ''gemdrive/'' =
      [''/docs/'', ''meta.json'']"
    by (simp_all add: requestPath_def demo_server_def demo_request_def Get_def
        request_depth_absent_def request_depth_word_def request_depth_two_def strings_Split_def)
  have t: "extractToken request_depth_absent = Inr (''secret'', None)"
    "extractToken request_depth_word = Inr (''secret'', None)"
    "extractToken request_depth_two = Inr (''secret'', None)"
    by (simp_all add: extractToken_def Get_def request_depth_absent_def request_depth_word_def
        request_depth_two_def demo_request_def)
  have q: "Get (Query request_depth_absent) ''depth'' = []"
    "Get (Query request_depth_word) ''depth'' = ''deep''"
    "Get (Query request_depth_two) ''depth'' = ''2''"
    by (simp_all add: Get_def request_depth_absent_def request_depth_word_def
        request_depth_two_def demo_request_def)
  have a: "strconv_Atoi ''deep'' = Inl (NumError ''strconv.Atoi'' ''deep'' ErrSyntax)"
    "strconv_Atoi ''2'' = Inr 2"
    by (simp_all add: parse_defs)
  show ?thesis
    using meta_json_depth [OF demo_box m(1) s(1) t(1) demo_secret(1)]
      meta_json_depth [OF demo_box m(2) s(2) t(2) demo_secret(1)]
      meta_json_depth [OF demo_box m(3) s(3) t(3) demo_secret(1)]
    by (simp add: q a)
qed

section \<open>PUT\<close>

text \<open>
  Claim C7. For an authorized PUT in direct mode, on a backend that is a
  \<^verbatim>\<open>WritableBackend\<close> (section 4.3 of the specification gives the other case, status 500, in
  a sentence of its own): when the path ends in a slash the server calls \<^verbatim>\<open>MakeDir\<close> with
  \<open>recursive\<close> read from the query flag \<^verbatim>\<open>recursive\<close>; otherwise, when the declared
  content length is at least 1, it calls \<^verbatim>\<open>Write\<close> with offset 0, the declared content
  length, \<open>overwrite\<close> read from the query flag \<^verbatim>\<open>overwrite\<close> and \<open>truncate\<close> true; and when
  the declared content length is less than 1 it answers 400 and \<^verbatim>\<open>Write\<close> is not called.
\<close>

theorem put_calls:
  assumes box: "rice_FindBox lib ''files'' = Inr box" "box ''login.html'' = Inr html"
    and meth: "Method r = ''PUT''"
    and direct: "length (strings_Split (requestPath s r) ''gemdrive/'') \<noteq> 2"
    and tok: "extractToken r = Inr (token, e)"
    and allowed: "CanWrite (auth s) token (requestPath s r)"
    and writable: "asWritableBackend (backend s) = Some b"
  shows "(strings_HasSuffix (requestPath s r) ''/'' \<longrightarrow>
            calls_of (Run_handler lib s r) =
              [CallCanWrite token (requestPath s r),
               CallMakeDir (requestPath s r) (Get (Query r) ''recursive'' = ''true'')]) \<and>
         (\<not> strings_HasSuffix (requestPath s r) ''/'' \<and> 1 \<le> ContentLength r \<longrightarrow>
            calls_of (Run_handler lib s r) =
              [CallCanWrite token (requestPath s r),
               CallWrite (requestPath s r) (Body r) 0 (ContentLength r)
                 (Get (Query r) ''overwrite'' = ''true'') True]) \<and>
         (\<not> strings_HasSuffix (requestPath s r) ''/'' \<and> ContentLength r < 1 \<longrightarrow>
            status_of (Run_handler lib s r) = Some 400 \<and>
            body_of (Run_handler lib s r) = Some ''Invalid write size'' \<and>
            calls_of (Run_handler lib s r) = [CallCanWrite token (requestPath s r)])"
proof -
  let ?s = "s\<lparr>loginHtml := html\<rparr>"
  let ?w = "entry_writer lib (requestPath s r)"
  let ?p = "requestPath s r"
  have notopt: "Method r \<noteq> ''OPTIONS''" using meth by simp
  have run: "Run_handler lib s r = handlePut lib ?s ?w r ?p"
    using Run_handler_route [OF box notopt] direct meth by (simp add: route_def)
  have dir: "strings_HasSuffix ?p ''/'' \<Longrightarrow>
      calls_of (handlePut lib ?s ?w r ?p) =
        [CallCanWrite token ?p, CallMakeDir ?p (Get (Query r) ''recursive'' = ''true'')]"
    using tok allowed writable
    by (simp add: handlePut_def Let_def split: option.split)
  have plain: "\<not> strings_HasSuffix ?p ''/'' \<Longrightarrow> 1 \<le> ContentLength r \<Longrightarrow>
      calls_of (handlePut lib ?s ?w r ?p) =
        [CallCanWrite token ?p,
         CallWrite ?p (Body r) 0 (ContentLength r) (Get (Query r) ''overwrite'' = ''true'') True]"
    using tok allowed writable
    by (simp add: handlePut_def Let_def split: option.split)
  have empty: "\<not> strings_HasSuffix ?p ''/'' \<Longrightarrow> ContentLength r < 1 \<Longrightarrow>
      handlePut lib ?s ?w r ?p =
        Done (fail_with 400 ''Invalid write size'' ?w) [CallCanWrite token ?p]"
    using tok allowed writable by (simp add: handlePut_def Let_def)
  have st: "wire_status (fail_with 400 ''Invalid write size'' ?w) = 400"
    "body (fail_with 400 ''Invalid write size'' ?w) = ''Invalid write size''"
    by (simp_all add: writer_defs entry_writer_fresh)
  show ?thesis using dir plain empty st by (simp add: run)
qed

text \<open>Creating a directory, writing five bytes, and a PUT that declares no content.\<close>

theorem put_calls_witness:
  "calls_of (Run_handler demo_lib demo_server request_mkdir) =
     [CallCanWrite ''secret'' ''/docs/new/sub/'', CallMakeDir ''/docs/new/sub/'' True] \<and>
   calls_of (Run_handler demo_lib demo_server request_put) =
     [CallCanWrite ''secret'' ''/docs/b.txt'',
      CallWrite ''/docs/b.txt'' (Inr ''hello'') 0 5 True True] \<and>
   status_of (Run_handler demo_lib demo_server request_put_empty) = Some 400 \<and>
   body_of (Run_handler demo_lib demo_server request_put_empty) = Some ''Invalid write size'' \<and>
   calls_of (Run_handler demo_lib demo_server request_put_empty) =
     [CallCanWrite ''secret'' ''/docs/b.txt'']"
proof -
  have p: "requestPath demo_server request_mkdir = ''/docs/new/sub/''"
    "requestPath demo_server request_put = ''/docs/b.txt''"
    "requestPath demo_server request_put_empty = ''/docs/b.txt''"
    by (simp_all add: requestPath_def demo_server_def demo_request_def Get_def
        request_mkdir_def request_put_def request_put_empty_def)
  have m: "Method request_mkdir = ''PUT''" "Method request_put = ''PUT''"
    "Method request_put_empty = ''PUT''"
    by (simp_all add: request_mkdir_def request_put_def request_put_empty_def)
  have d: "length (strings_Split (requestPath demo_server request_mkdir) ''gemdrive/'') \<noteq> 2"
    "length (strings_Split (requestPath demo_server request_put) ''gemdrive/'') \<noteq> 2"
    "length (strings_Split (requestPath demo_server request_put_empty) ''gemdrive/'') \<noteq> 2"
    by (simp_all add: p strings_Split_def)
  have t: "extractToken request_mkdir = Inr (''secret'', None)"
    "extractToken request_put = Inr (''secret'', None)"
    "extractToken request_put_empty = Inr (''secret'', None)"
    by (simp_all add: extractToken_def Get_def request_mkdir_def request_put_def
        request_put_empty_def demo_request_def)
  have sfx: "strings_HasSuffix ''/docs/new/sub/'' ''/''" "\<not> strings_HasSuffix ''/docs/b.txt'' ''/''"
    by (simp_all add: strings_HasSuffix_def)
  have q: "Get (Query request_mkdir) ''recursive'' = ''true''"
    "Get (Query request_put) ''overwrite'' = ''true''"
    "ContentLength request_put = 5" "Body request_put = Inr ''hello''"
    "ContentLength request_put_empty = 0"
    by (simp_all add: Get_def request_mkdir_def request_put_def request_put_empty_def
        demo_request_def)
  show ?thesis
    using put_calls [OF demo_box m(1) d(1) t(1) demo_secret(2) demo_writable_backend]
      put_calls [OF demo_box m(2) d(2) t(2) demo_secret(2) demo_writable_backend]
      put_calls [OF demo_box m(3) d(3) t(3) demo_secret(2) demo_writable_backend]
    by (simp add: p sfx q)
qed

section \<open>PATCH\<close>

text \<open>
  Claim C8 says that the offset of a PATCH is never negative. The handler passes on
  whatever integer \<^verbatim>\<open>strconv.Atoi\<close> reads: with \<^verbatim>\<open>offset=-5\<close> the backend's \<^verbatim>\<open>Write\<close> is
  invoked with offset \<open>-5\<close>.
\<close>

theorem negative_offset_reaches_Write:
  "strconv_Atoi ''-5'' = Inr (- 5) \<and>
   calls_of (Run_handler demo_lib demo_server request_patch_negative) =
     [CallCanWrite ''secret'' ''/docs/a.txt'',
      CallWrite ''/docs/a.txt'' (Inr ''xyz'') (- 5) 3 True False]"
  by (simp add: handler_defs demo_defs request_patch_negative_def writer_defs parse_defs Let_def)

text \<open>
  Claim C8, amended. For an authorized PATCH in direct mode on a backend that is a
  \<^verbatim>\<open>WritableBackend\<close>: an offset parameter that is present and that \<^verbatim>\<open>strconv.Atoi\<close>
  rejects fails with status 400; otherwise the offset is 0 when the parameter is absent
  and the integer read when it is present, of either sign; a \<^verbatim>\<open>Content-Length\<close> header
  that \<^verbatim>\<open>strconv.Atoi\<close> rejects, as it does the empty text of a missing header, fails with
  status 400; otherwise \<^verbatim>\<open>Write\<close> is invoked with that offset, the length read from the
  header, \<open>overwrite\<close> true and \<open>truncate\<close> false. In both failures \<^verbatim>\<open>Write\<close> is not
  invoked.
\<close>

theorem patch_calls:
  assumes box: "rice_FindBox lib ''files'' = Inr box" "box ''login.html'' = Inr html"
    and meth: "Method r = ''PATCH''"
    and direct: "length (strings_Split (requestPath s r) ''gemdrive/'') \<noteq> 2"
    and tok: "extractToken r = Inr (token, e)"
    and allowed: "CanWrite (auth s) token (requestPath s r)"
    and writable: "asWritableBackend (backend s) = Some b"
  shows "(\<forall>err. Get (Query r) ''offset'' \<noteq> [] \<and>
                strconv_Atoi (Get (Query r) ''offset'') = Inl err \<longrightarrow>
            status_of (Run_handler lib s r) = Some 400 \<and>
            body_of (Run_handler lib s r) = Some ''Invalid offset'' \<and>
            calls_of (Run_handler lib s r) = [CallCanWrite token (requestPath s r)]) \<and>
         (\<forall>offset err.
            (if Get (Query r) ''offset'' = [] then Inr 0
             else strconv_Atoi (Get (Query r) ''offset'')) = Inr offset \<and>
            strconv_Atoi (Get (Header r) ''Content-Length'') = Inl err \<longrightarrow>
            status_of (Run_handler lib s r) = Some 400 \<and>
            body_of (Run_handler lib s r) = Some ''Invalid content length'' \<and>
            calls_of (Run_handler lib s r) = [CallCanWrite token (requestPath s r)]) \<and>
         (\<forall>offset n.
            (if Get (Query r) ''offset'' = [] then Inr 0
             else strconv_Atoi (Get (Query r) ''offset'')) = Inr offset \<and>
            strconv_Atoi (Get (Header r) ''Content-Length'') = Inr n \<longrightarrow>
            calls_of (Run_handler lib s r) =
              [CallCanWrite token (requestPath s r),
               CallWrite (requestPath s r) (Body r) offset n True False]) \<and>
         strconv_Atoi [] = Inl (NumError ''strconv.Atoi'' [] ErrSyntax)"
proof -
  let ?s = "s\<lparr>loginHtml := html\<rparr>"
  let ?w = "entry_writer lib (requestPath s r)"
  let ?p = "requestPath s r"
  let ?off = "if Get (Query r) ''offset'' = [] then Inr 0
              else strconv_Atoi (Get (Query r) ''offset'')"
  have notopt: "Method r \<noteq> ''OPTIONS''" using meth by simp
  have run: "Run_handler lib s r = handlePatch lib ?s ?w r ?p"
    using Run_handler_route [OF box notopt] direct meth by (simp add: route_def)
  have bad_offset: "Get (Query r) ''offset'' \<noteq> [] \<Longrightarrow>
      strconv_Atoi (Get (Query r) ''offset'') = Inl err \<Longrightarrow>
      handlePatch lib ?s ?w r ?p =
        Done (fail_with 400 ''Invalid offset'' ?w) [CallCanWrite token ?p]" for err
    using tok allowed writable by (simp add: handlePatch_def Let_def)
  have bad_length: "?off = Inr offset \<Longrightarrow>
      strconv_Atoi (Get (Header r) ''Content-Length'') = Inl err \<Longrightarrow>
      handlePatch lib ?s ?w r ?p =
        Done (fail_with 400 ''Invalid content length'' ?w) [CallCanWrite token ?p]"
    for offset err
    using tok allowed writable by (simp add: handlePatch_def Let_def)
  have good: "?off = Inr offset \<Longrightarrow>
      strconv_Atoi (Get (Header r) ''Content-Length'') = Inr n \<Longrightarrow>
      calls_of (handlePatch lib ?s ?w r ?p) =
        [CallCanWrite token ?p, CallWrite ?p (Body r) offset n True False]" for offset n
    using tok allowed writable by (simp add: handlePatch_def Let_def split: option.split)
  have st: "wire_status (fail_with 400 msg ?w) = 400" "body (fail_with 400 msg ?w) = msg" for msg
    by (simp_all add: writer_defs entry_writer_fresh)
  have missing: "strconv_Atoi [] = Inl (NumError ''strconv.Atoi'' [] ErrSyntax)"
    by (simp add: strconv_Atoi_def parse_int64_def)
  show ?thesis
  proof (intro conjI allI impI)
    fix err
    assume "Get (Query r) ''offset'' \<noteq> [] \<and> strconv_Atoi (Get (Query r) ''offset'') = Inl err"
    then have h: "handlePatch lib ?s ?w r ?p =
        Done (fail_with 400 ''Invalid offset'' ?w) [CallCanWrite token ?p]"
      using bad_offset by blast
    show "status_of (Run_handler lib s r) = Some 400"
      "body_of (Run_handler lib s r) = Some ''Invalid offset''"
      "calls_of (Run_handler lib s r) = [CallCanWrite token ?p]"
      by (simp_all add: run h st)
  next
    fix offset err
    assume "?off = Inr offset \<and> strconv_Atoi (Get (Header r) ''Content-Length'') = Inl err"
    then have h: "handlePatch lib ?s ?w r ?p =
        Done (fail_with 400 ''Invalid content length'' ?w) [CallCanWrite token ?p]"
      using bad_length by blast
    show "status_of (Run_handler lib s r) = Some 400"
      "body_of (Run_handler lib s r) = Some ''Invalid content length''"
      "calls_of (Run_handler lib s r) = [CallCanWrite token ?p]"
      by (simp_all add: run h st)
  next
    fix offset n
    assume "?off = Inr offset \<and> strconv_Atoi (Get (Header r) ''Content-Length'') = Inr n"
    then show "calls_of (Run_handler lib s r) =
        [CallCanWrite token ?p, CallWrite ?p (Body r) offset n True False]"
      using good by (simp add: run)
  next
    show "strconv_Atoi [] = Inl (NumError ''strconv.Atoi'' [] ErrSyntax)" by (rule missing)
  qed
qed

text \<open>A PATCH without offset, one with the offset \<^verbatim>\<open>1.5\<close>, and one without \<^verbatim>\<open>Content-Length\<close>.\<close>

theorem patch_calls_witness:
  "calls_of (Run_handler demo_lib demo_server request_patch) =
     [CallCanWrite ''secret'' ''/docs/a.txt'',
      CallWrite ''/docs/a.txt'' (Inr ''xyz'') 0 3 True False] \<and>
   status_of (Run_handler demo_lib demo_server request_patch_bad_offset) = Some 400 \<and>
   body_of (Run_handler demo_lib demo_server request_patch_bad_offset) = Some ''Invalid offset'' \<and>
   calls_of (Run_handler demo_lib demo_server request_patch_bad_offset) =
     [CallCanWrite ''secret'' ''/docs/a.txt''] \<and>
   Get (Header request_patch_no_length) ''Content-Length'' = [] \<and>
   status_of (Run_handler demo_lib demo_server request_patch_no_length) = Some 400 \<and>
   body_of (Run_handler demo_lib demo_server request_patch_no_length) =
     Some ''Invalid content length'' \<and>
   calls_of (Run_handler demo_lib demo_server request_patch_no_length) =
     [CallCanWrite ''secret'' ''/docs/a.txt'']"
proof -
  have m: "Method request_patch = ''PATCH''" "Method request_patch_bad_offset = ''PATCH''"
    "Method request_patch_no_length = ''PATCH''"
    by (simp_all add: request_patch_def request_patch_bad_offset_def
        request_patch_no_length_def)
  have p: "requestPath demo_server request_patch = ''/docs/a.txt''"
    "requestPath demo_server request_patch_bad_offset = ''/docs/a.txt''"
    "requestPath demo_server request_patch_no_length = ''/docs/a.txt''"
    by (simp_all add: requestPath_def demo_server_def demo_request_def Get_def
        request_patch_def request_patch_bad_offset_def request_patch_no_length_def)
  have d: "length (strings_Split (requestPath demo_server request_patch) ''gemdrive/'') \<noteq> 2"
    "length (strings_Split (requestPath demo_server request_patch_bad_offset) ''gemdrive/'') \<noteq> 2"
    "length (strings_Split (requestPath demo_server request_patch_no_length) ''gemdrive/'') \<noteq> 2"
    by (simp_all add: p strings_Split_def)
  have t: "extractToken request_patch = Inr (''secret'', None)"
    "extractToken request_patch_bad_offset = Inr (''secret'', None)"
    "extractToken request_patch_no_length = Inr (''secret'', None)"
    by (simp_all add: extractToken_def Get_def request_patch_def request_patch_bad_offset_def
        request_patch_no_length_def demo_request_def)
  have q: "Get (Query request_patch) ''offset'' = []"
    "Get (Header request_patch) ''Content-Length'' = ''3''"
    "Body request_patch = Inr ''xyz''"
    "Get (Query request_patch_bad_offset) ''offset'' = ''1.5''"
    "Get (Query request_patch_no_length) ''offset'' = ''40''"
    "Get (Header request_patch_no_length) ''Content-Length'' = []"
    by (simp_all add: Get_def request_patch_def request_patch_bad_offset_def
        request_patch_no_length_def demo_request_def)
  have a: "strconv_Atoi ''3'' = Inr 3" "strconv_Atoi ''40'' = Inr 40"
    "strconv_Atoi ''1.5'' = Inl (NumError ''strconv.Atoi'' ''1.5'' ErrSyntax)"
    "strconv_Atoi [] = Inl (NumError ''strconv.Atoi'' [] ErrSyntax)"
    by (simp_all add: parse_defs)
  show ?thesis
    using patch_calls [OF demo_box m(1) d(1) t(1) demo_secret(2) demo_writable_backend]
      patch_calls [OF demo_box m(2) d(2) t(2) demo_secret(2) demo_writable_backend]
      patch_calls [OF demo_box m(3) d(3) t(3) demo_secret(2) demo_writable_backend]
    by (simp add: p q a)
qed

section \<open>Token extraction is partial\<close>

text \<open>
  Claim C9. Token extraction is not total. For a request without the query parameter
  \<^verbatim>\<open>access_token\<close> whose \<^verbatim>\<open>Authorization\<close> header is not empty and contains no space,
  \<^verbatim>\<open>strings.Split\<close> gives a slice of one element and \<^verbatim>\<open>extractToken\<close> evaluates its
  element 1: the index is out of range, and the function panics instead of returning a
  token or an error.
\<close>

theorem extractToken_not_total:
  assumes "Get (Query r) ''access_token'' = []"
      and "Get (Header r) ''Authorization'' \<noteq> []"
      and "CHR '' '' \<notin> set (Get (Header r) ''Authorization'')"
  shows "strings_Split (Get (Header r) ''Authorization'') '' '' = [Get (Header r) ''Authorization''] \<and>
         extractToken r = Inl (IndexOutOfRange 1 1)"
  using assms by (simp add: extractToken_def Let_def strings_Split_no_sep)

text \<open>The header \<^verbatim>\<open>Authorization: Bearer\<close>.\<close>

theorem extractToken_not_total_witness:
  "Get (Query request_no_space) ''access_token'' = [] \<and>
   Get (Header request_no_space) ''Authorization'' = ''Bearer'' \<and>
   extractToken request_no_space = Inl (IndexOutOfRange 1 1)"
proof -
  have q: "Get (Query request_no_space) ''access_token'' = []"
    by (simp add: request_no_space_def demo_request_def Get_def)
  have h: "Get (Header request_no_space) ''Authorization'' = ''Bearer''"
    by (simp add: request_no_space_def demo_request_def Get_def)
  have h1: "Get (Header request_no_space) ''Authorization'' \<noteq> []"
    and h2: "CHR '' '' \<notin> set (Get (Header request_no_space) ''Authorization'')"
    by (simp_all add: h)
  show ?thesis using extractToken_not_total [OF q h1 h2] q h by simp
qed

section \<open>Unknown operations of the meta protocol\<close>

text \<open>
  Claim C10. A request of the meta protocol (the path splits at the marker \<^verbatim>\<open>gemdrive/\<close>
  into a target path and an operation) that passes the read check, whose operation is
  neither \<^verbatim>\<open>meta.json\<close> nor \<^verbatim>\<open>authorize\<close>, and whose first part up to a slash is not
  \<^verbatim>\<open>images\<close>, or is \<^verbatim>\<open>images\<close> while the backend is no \<^verbatim>\<open>ImageServer\<close>: the handler
  returns the writer as it received it, without a status and without a body, having
  called nothing but \<^verbatim>\<open>CanRead\<close>, so the client receives status 200 and an empty body,
  not 404.
\<close>

theorem unknown_operation_empty_200:
  assumes box: "rice_FindBox lib ''files'' = Inr box" "box ''login.html'' = Inr html"
    and meth: "Method r \<noteq> ''OPTIONS''"
    and marker: "strings_Split (requestPath s r) ''gemdrive/'' = [gemPath, gemReq]"
    and tok: "extractToken r = Inr (token, e)"
    and allowed: "CanRead (auth s) token gemPath"
    and op: "gemReq \<noteq> ''authorize''" "gemReq \<noteq> ''meta.json''"
    and other: "strings_Split gemReq ''/'' ! 0 \<noteq> ''images'' \<or>
                (strings_Split gemReq ''/'' ! 0 = ''images'' \<and> asImageServer (backend s) = None)"
  shows "Run_handler lib s r =
           Done (entry_writer lib (requestPath s r)) [CallCanRead token gemPath] \<and>
         status (entry_writer lib (requestPath s r)) = None \<and>
         body (entry_writer lib (requestPath s r)) = [] \<and>
         status_of (Run_handler lib s r) = Some 200 \<and>
         body_of (Run_handler lib s r) = Some []"
proof -
  let ?s = "s\<lparr>loginHtml := html\<rparr>"
  let ?w = "entry_writer lib (requestPath s r)"
  have run: "Run_handler lib s r = route lib ?s ?w r (requestPath s r)"
    by (rule Run_handler_route [OF box meth])
  have "route lib ?s ?w r (requestPath s r) = Done ?w [CallCanRead token gemPath]"
    using marker tok allowed op other
    by (auto simp: route_def handleGemDriveRequest_def serveImage_def Let_def)
  with run show ?thesis
    by (simp add: entry_writer_fresh wire_status_def)
qed

text \<open>The operations \<^verbatim>\<open>thumbnails\<close> and \<^verbatim>\<open>images/128/a.png\<close> on a backend without images.\<close>

theorem unknown_operation_empty_200_witness:
  "Run_handler demo_lib demo_server request_unknown_op =
     Done (entry_writer demo_lib ''/docs/gemdrive/thumbnails'') [CallCanRead ''secret'' ''/docs/''] \<and>
   status_of (Run_handler demo_lib demo_server request_unknown_op) = Some 200 \<and>
   body_of (Run_handler demo_lib demo_server request_unknown_op) = Some [] \<and>
   asImageServer (backend demo_server) = None \<and>
   status_of (Run_handler demo_lib demo_server request_image) = Some 200 \<and>
   body_of (Run_handler demo_lib demo_server request_image) = Some [] \<and>
   calls_of (Run_handler demo_lib demo_server request_image) = [CallCanRead ''secret'' ''/docs/'']"
proof -
  have box: "rice_FindBox demo_lib ''files'' = Inr (\<lambda>f. Inr ''<html>login</html>'')"
    "(\<lambda>f. Inr ''<html>login</html>'' :: go_error + string) ''login.html'' = Inr ''<html>login</html>''"
    by (simp_all add: demo_lib_def)
  have p1: "requestPath demo_server request_unknown_op = ''/docs/gemdrive/thumbnails''"
    and p2: "requestPath demo_server request_image = ''/docs/gemdrive/images/128/a.png''"
    by (simp_all add: requestPath_def demo_server_def demo_request_def Get_def
        request_unknown_op_def request_image_def)
  have m1: "Method request_unknown_op \<noteq> ''OPTIONS''" and m2: "Method request_image \<noteq> ''OPTIONS''"
    by (simp_all add: request_unknown_op_def request_image_def demo_request_def)
  have s1: "strings_Split (requestPath demo_server request_unknown_op) ''gemdrive/'' =
      [''/docs/'', ''thumbnails'']"
    and s2: "strings_Split (requestPath demo_server request_image) ''gemdrive/'' =
      [''/docs/'', ''images/128/a.png'']"
    by (simp_all add: p1 p2 strings_Split_def)
  have t1: "extractToken request_unknown_op = Inr (''secret'', None)"
    and t2: "extractToken request_image = Inr (''secret'', None)"
    by (simp_all add: extractToken_def request_unknown_op_def request_image_def
        demo_request_def Get_def)
  have a: "CanRead (auth demo_server) ''secret'' ''/docs/''"
    by (simp add: demo_server_def demo_auth_def)
  have o1: "strings_Split ''thumbnails'' ''/'' ! 0 \<noteq> ''images'' \<or>
      (strings_Split ''thumbnails'' ''/'' ! 0 = ''images'' \<and> asImageServer (backend demo_server) = None)"
    by (simp add: strings_Split_def)
  have noimg: "asImageServer (backend demo_server) = None"
    by (simp add: demo_server_def demo_backend_def)
  have o2: "strings_Split ''images/128/a.png'' ''/'' ! 0 \<noteq> ''images'' \<or>
      (strings_Split ''images/128/a.png'' ''/'' ! 0 = ''images'' \<and>
       asImageServer (backend demo_server) = None)"
    by (simp add: strings_Split_def noimg)
  have r1: "Run_handler demo_lib demo_server request_unknown_op =
      Done (entry_writer demo_lib ''/docs/gemdrive/thumbnails'') [CallCanRead ''secret'' ''/docs/''] \<and>
      status_of (Run_handler demo_lib demo_server request_unknown_op) = Some 200 \<and>
      body_of (Run_handler demo_lib demo_server request_unknown_op) = Some []"
    using unknown_operation_empty_200 [OF box m1 s1 t1 a _ _ o1] p1
    by (simp add: wire_status_def)
  have r2: "status_of (Run_handler demo_lib demo_server request_image) = Some 200 \<and>
      body_of (Run_handler demo_lib demo_server request_image) = Some [] \<and>
      calls_of (Run_handler demo_lib demo_server request_image) = [CallCanRead ''secret'' ''/docs/'']"
    using unknown_operation_empty_200 [OF box m2 s2 t2 a _ _ o2] p2
    by (simp add: wire_status_def)
  from r1 r2 noimg show ?thesis by (simp add: entry_writer_fresh wire_status_def)
qed

end
